theory Spec2Isabelle
  imports Complex_Main
begin

section \<open>Python values, exceptions and two-dimensional arrays\<close>

text \<open>
  The notebook \<^verbatim>\<open>InterestingBits.ipynb\<close> shows the vectorised parts of the class
  \<^verbatim>\<open>NeuralNetwork\<close>: the feed-forward loop, the two update comprehensions, the
  sigmoid, \<^verbatim>\<open>load\<close> and the two branches of the constructor. Each code cell is
  embedded below as a function on an explicit object state. An exception is a value of
  the type \<open>error\<close>; a function that can raise returns \<open>error + 'a\<close> together with
  the state reached when the exception left it.
\<close>

datatype error =
    FileNotFoundError
  | MemoryError
  | KeyError string
  | TypeError
  | ValueError
  | AttributeError string
  | ZeroDivisionError
  | SyntaxError

text \<open>
  A value as \<^verbatim>\<open>json.load\<close> returns it, which is also what a caller hands to the
  constructor as \<^verbatim>\<open>shape_or_file\<close>: \<^verbatim>\<open>None\<close>, a bool, a number, a \<^verbatim>\<open>str\<close>,
  a \<^verbatim>\<open>list\<close> or a \<^verbatim>\<open>dict\<close> with string keys (distinct, in insertion order).
\<close>

datatype pyval =
    PNone
  | PBool bool
  | PNum real
  | PStr string
  | PList "pyval list"
  | PDict "(string \<times> pyval) list"

text \<open>
  A two-dimensional \<^verbatim>\<open>numpy\<close> array: its shape \<open>(nrows, ncols)\<close> and its rows. The
  shape is kept beside the rows because an array of shape \<open>(0, c)\<close> has no row to read
  \<open>c\<close> from. Entries are \<^verbatim>\<open>float64\<close> in the program and real numbers here:
  rounding is not modelled.
\<close>

datatype ndarray = NDArray (nrows: nat) (ncols: nat) (rows: "real list list")

definition wf_ndarray :: "ndarray \<Rightarrow> bool" where
  "wf_ndarray a \<longleftrightarrow>
     length (rows a) = nrows a \<and> list_all (\<lambda>r. length r = ncols a) (rows a)"

definition shape_of :: "ndarray \<Rightarrow> nat \<times> nat" where
  "shape_of a = (nrows a, ncols a)"

definition elem :: "ndarray \<Rightarrow> nat \<Rightarrow> nat \<Rightarrow> real" where
  "elem a i j = rows a ! i ! j"

definition mk_ndarray :: "nat \<Rightarrow> nat \<Rightarrow> (nat \<Rightarrow> nat \<Rightarrow> real) \<Rightarrow> ndarray" where
  "mk_ndarray r c f = NDArray r c (map (\<lambda>i. map (\<lambda>j. f i j) [0..<c]) [0..<r])"

text \<open>\<^verbatim>\<open>np.dot(a, b)\<close> on two-dimensional arrays: the inner dimensions must agree.\<close>

definition np_dot :: "ndarray \<Rightarrow> ndarray \<Rightarrow> error + ndarray" where
  "np_dot a b =
     (if ncols a \<noteq> nrows b then Inl ValueError
      else Inr (mk_ndarray (nrows a) (ncols b)
                  (\<lambda>i j. sum_list (map (\<lambda>k. elem a i k * elem b k j) [0..<ncols a]))))"

text \<open>\<^verbatim>\<open>a.T\<close>\<close>

definition np_T :: "ndarray \<Rightarrow> ndarray" where
  "np_T a = mk_ndarray (ncols a) (nrows a) (\<lambda>i j. elem a j i)"

text \<open>
  Broadcasting of one dimension: equal lengths, or one of the two is 1 and is
  stretched to the other; anything else raises \<^verbatim>\<open>ValueError\<close>.
\<close>

definition broadcast_dim :: "nat \<Rightarrow> nat \<Rightarrow> nat option" where
  "broadcast_dim m n =
     (if m = n then Some m else if m = 1 then Some n else if n = 1 then Some m else None)"

definition bc_elem :: "ndarray \<Rightarrow> nat \<Rightarrow> nat \<Rightarrow> real" where
  "bc_elem a i j = elem a (if nrows a = 1 then 0 else i) (if ncols a = 1 then 0 else j)"

definition np_binop :: "(real \<Rightarrow> real \<Rightarrow> real) \<Rightarrow> ndarray \<Rightarrow> ndarray \<Rightarrow> error + ndarray" where
  "np_binop f a b =
     (case broadcast_dim (nrows a) (nrows b) of
        None \<Rightarrow> Inl ValueError
      | Some r \<Rightarrow>
          (case broadcast_dim (ncols a) (ncols b) of
             None \<Rightarrow> Inl ValueError
           | Some c \<Rightarrow> Inr (mk_ndarray r c (\<lambda>i j. f (bc_elem a i j) (bc_elem b i j)))))"

definition np_add :: "ndarray \<Rightarrow> ndarray \<Rightarrow> error + ndarray" where
  "np_add = np_binop (+)"

definition np_sub :: "ndarray \<Rightarrow> ndarray \<Rightarrow> error + ndarray" where
  "np_sub = np_binop (-)"

text \<open>A Python scalar times an array, and a vectorised scalar function applied to an array.\<close>

definition np_scale :: "real \<Rightarrow> ndarray \<Rightarrow> ndarray" where
  "np_scale c a = mk_ndarray (nrows a) (ncols a) (\<lambda>i j. c * elem a i j)"

definition np_map :: "(real \<Rightarrow> real) \<Rightarrow> ndarray \<Rightarrow> ndarray" where
  "np_map f a = mk_ndarray (nrows a) (ncols a) (\<lambda>i j. f (elem a i j))"

text \<open>Python's \<^verbatim>\<open>/\<close> on numbers.\<close>

definition py_div :: "real \<Rightarrow> real \<Rightarrow> error + real" where
  "py_div x y = (if y = 0 then Inl ZeroDivisionError else Inr (x / y))"

section \<open>The network object\<close>

text \<open>
  The attributes of \<^verbatim>\<open>self\<close> that the cells read or assign. An attribute that has
  not been assigned yet is \<open>None\<close>, and reading it raises \<^verbatim>\<open>AttributeError\<close>.
  \<open>printed\<close> is what \<^verbatim>\<open>print\<close> has written so far. The type \<open>'a\<close> is the type of
  the arrays held: \<open>ndarray\<close> for the numeric cells, and whatever \<^verbatim>\<open>np.array\<close>
  builds from a JSON value for \<^verbatim>\<open>load\<close>.
\<close>

datatype message =
    FILENOTFOUNDERROR_MESSAGE
  | MEMORYERROR_MESSAGE
  | WRONGSHAPE_MESSAGE
  | LoadFailedMissingKey error

record 'a net =
  shape :: "pyval option"
  weights :: "'a list option"
  biases :: "'a list option"
  activation :: "(real \<Rightarrow> real) option"
  outputs :: "'a list option"
  activations :: "'a list option"
  deltas :: "'a list option"
  data :: "'a option"
  target :: "'a option"
  test_data :: "'a option"
  test_labels :: "'a option"
  testing_error :: "real list option"
  printed :: "message list"

section \<open>The feed-forward loop\<close>

text \<open>
  \<^verbatim>\<open>
  for w, b in zip(self.weights, self.biases):
      result = np.dot(w, result) + b
      self.outputs.append(result)
      result = self.activation(result)
      self.activations.append(result)
  \<close>
  \<open>loop_body\<close> is one iteration, \<open>feed_forward\<close> the loop over the zipped pairs, and
  \<open>forward\<close> reads the two lists first. The local \<^verbatim>\<open>result\<close> is bound before the loop to the batch being fed and
  holds the last activation after it. \<^verbatim>\<open>self.activation\<close> is a vectorised scalar
  function. The lists behind \<^verbatim>\<open>self.outputs\<close>, \<^verbatim>\<open>self.activations\<close>,
  \<^verbatim>\<open>self.weights\<close> and \<^verbatim>\<open>self.biases\<close> are taken to be four different objects.
\<close>

definition loop_body ::
  "ndarray \<Rightarrow> ndarray \<Rightarrow> ndarray \<Rightarrow> ndarray net \<Rightarrow> (error + ndarray) \<times> ndarray net" where
  "loop_body w b result self =
     (case np_dot w result of
        Inl e \<Rightarrow> (Inl e, self)
      | Inr p \<Rightarrow>
     (case np_add p b of
        Inl e \<Rightarrow> (Inl e, self)
      | Inr result1 \<Rightarrow>
     (case outputs self of
        None \<Rightarrow> (Inl (AttributeError ''outputs''), self)
      | Some outs \<Rightarrow>
     (let self1 = self\<lparr>outputs := Some (outs @ [result1])\<rparr> in
     (case activation self1 of
        None \<Rightarrow> (Inl (AttributeError ''activation''), self1)
      | Some f \<Rightarrow>
     (let result2 = np_map f result1 in
     (case activations self1 of
        None \<Rightarrow> (Inl (AttributeError ''activations''), self1)
      | Some acts \<Rightarrow> (Inr result2, self1\<lparr>activations := Some (acts @ [result2])\<rparr>))))))))"

fun feed_forward ::
  "(ndarray \<times> ndarray) list \<Rightarrow> ndarray \<Rightarrow> ndarray net \<Rightarrow> (error + ndarray) \<times> ndarray net" where
  "feed_forward [] result self = (Inr result, self)"
| "feed_forward ((w, b) # rest) result self =
     (case loop_body w b result self of
        (Inl e, self') \<Rightarrow> (Inl e, self')
      | (Inr result', self') \<Rightarrow> feed_forward rest result' self')"

definition forward :: "ndarray \<Rightarrow> ndarray net \<Rightarrow> (error + ndarray) \<times> ndarray net" where
  "forward result self =
     (case weights self of
        None \<Rightarrow> (Inl (AttributeError ''weights''), self)
      | Some ws \<Rightarrow>
     (case biases self of
        None \<Rightarrow> (Inl (AttributeError ''biases''), self)
      | Some bs \<Rightarrow> feed_forward (zip ws bs) result self))"


text \<open>
  The data model's invariant for a parameter store of shape \<open>[n0, \<dots>, n(L-1)]\<close>: one
  weight of shape \<open>(n(l), n(l-1))\<close> and one bias of shape \<open>(n(l), 1)\<close> for each
  layer \<open>l\<close> from 1 to \<open>L-1\<close>.
\<close>

fun store_matches :: "nat list \<Rightarrow> ndarray list \<Rightarrow> ndarray list \<Rightarrow> bool" where
  "store_matches [n] [] [] = True"
| "store_matches (m # n # ns) (w # ws) (b # bs) =
     (wf_ndarray w \<and> shape_of w = (n, m) \<and> wf_ndarray b \<and> shape_of b = (n, 1) \<and>
      store_matches (n # ns) ws bs)"
| "store_matches _ _ _ = False"

text \<open>Every array of a list is well formed and has \<open>k\<close> columns and the listed row counts.\<close>

fun layer_shapes :: "nat list \<Rightarrow> nat \<Rightarrow> ndarray list \<Rightarrow> bool" where
  "layer_shapes [] k [] = True"
| "layer_shapes (n # ns) k (a # as) =
     (wf_ndarray a \<and> shape_of a = (n, k) \<and> layer_shapes ns k as)"
| "layer_shapes _ _ _ = False"

section \<open>Updating the biases and the weights\<close>

text \<open>
  A list comprehension evaluates its elements in order and the first exception leaves
  it: no list is built then, and the assignment it feeds does not happen.
\<close>

fun comprehension :: "(error + 'a) list \<Rightarrow> error + 'a list" where
  "comprehension [] = Inr []"
| "comprehension (x # xs) =
     (case x of
        Inl e \<Rightarrow> Inl e
      | Inr v \<Rightarrow> (case comprehension xs of Inl e \<Rightarrow> Inl e | Inr vs \<Rightarrow> Inr (v # vs)))"

text \<open>\<^verbatim>\<open>np.sum(d, axis=1)\<close>: the sum of each row, a one-dimensional array.\<close>

definition np_sum_axis1 :: "ndarray \<Rightarrow> real list" where
  "np_sum_axis1 d = map (\<lambda>i. sum_list (map (\<lambda>j. elem d i j) [0..<ncols d])) [0..<nrows d]"

text \<open>
  \<^verbatim>\<open>v.reshape((r, c))\<close> on a one-dimensional array: the sizes must agree, the
  entries are laid out row by row.
\<close>

definition reshape :: "real list \<Rightarrow> nat \<times> nat \<Rightarrow> error + ndarray" where
  "reshape v s =
     (case s of (r, c) \<Rightarrow>
        if r * c \<noteq> length v then Inl ValueError
        else Inr (mk_ndarray r c (\<lambda>i j. v ! (i * c + j))))"

text \<open>
  Looking up a method that takes a shape on a one-dimensional array. \<^verbatim>\<open>numpy\<close>
  defines \<^verbatim>\<open>reshape\<close>; a name it does not define raises \<^verbatim>\<open>AttributeError\<close>.
\<close>

definition getattr_1d :: "real list \<Rightarrow> string \<Rightarrow> error + (nat \<times> nat \<Rightarrow> error + ndarray)" where
  "getattr_1d v name =
     (if name = ''reshape'' then Inr (reshape v) else Inl (AttributeError name))"

text \<open>
  \<^verbatim>\<open>
  self.biases = [b - (learning_rate/total)* (np.sum(d, axis=1)).resape(b.shape) \
                 for b, d  in zip(self.biases, self.deltas)]
  \<close>
  \<open>bias_entry_via name\<close> is one element of the comprehension with the method \<open>name\<close>
  called on the row sums; the cell calls \<^verbatim>\<open>resape\<close>. The operands are evaluated from
  left to right: the quotient, the sum, the method lookup, \<^verbatim>\<open>b.shape\<close>, the call.
\<close>

definition bias_entry_via :: "string \<Rightarrow> real \<Rightarrow> real \<Rightarrow> ndarray \<Rightarrow> ndarray \<Rightarrow> error + ndarray" where
  "bias_entry_via name learning_rate total' b d =
     (case py_div learning_rate total' of
        Inl e \<Rightarrow> Inl e
      | Inr c \<Rightarrow>
     (case getattr_1d (np_sum_axis1 d) name of
        Inl e \<Rightarrow> Inl e
      | Inr method \<Rightarrow>
     (case method (shape_of b) of
        Inl e \<Rightarrow> Inl e
      | Inr s \<Rightarrow> np_sub b (np_scale c s))))"

definition update_biases_via :: "string \<Rightarrow> real \<Rightarrow> real \<Rightarrow> ndarray net \<Rightarrow> (error + unit) \<times> ndarray net" where
  "update_biases_via name learning_rate total' self =
     (case biases self of
        None \<Rightarrow> (Inl (AttributeError ''biases''), self)
      | Some bs \<Rightarrow>
     (case deltas self of
        None \<Rightarrow> (Inl (AttributeError ''deltas''), self)
      | Some ds \<Rightarrow>
     (case comprehension (map (\<lambda>(b, d). bias_entry_via name learning_rate total' b d) (zip bs ds)) of
        Inl e \<Rightarrow> (Inl e, self)
      | Inr bs' \<Rightarrow> (Inr (), self\<lparr>biases := Some bs'\<rparr>))))"

definition update_biases :: "real \<Rightarrow> real \<Rightarrow> ndarray net \<Rightarrow> (error + unit) \<times> ndarray net" where
  "update_biases = update_biases_via ''resape''"

text \<open>
  A backslash joins a line to the next one only when the newline follows it directly.
  Any character between the backslash and the newline is rejected by the tokenizer with
  \<^verbatim>\<open>SyntaxError\<close>, when the code is compiled and before any of it runs.
  \<open>line_continuation\<close> takes the characters that follow the backslash on its line.
\<close>

definition line_continuation :: "string \<Rightarrow> error + unit" where
  "line_continuation after_backslash =
     (if after_backslash = [] then Inr () else Inl SyntaxError)"

text \<open>
  \<^verbatim>\<open>
  self.weights =  [w - (eta/total) * np.dot(d, a.T) \ 
                   for w, d, a in zip(self.weights, self.deltas, self.activations)]
  \<close>
  In the notebook one space follows the backslash that ends the first line of the cell.
  \<open>weight_entry\<close> is one element of the comprehension, \<open>update_weights_cell\<close> is
  the cell with the characters \<open>after_backslash\<close> between the backslash and the newline,
  and \<open>update_weights\<close> is the cell as the notebook has it.
\<close>

definition weight_entry :: "real \<Rightarrow> real \<Rightarrow> ndarray \<Rightarrow> ndarray \<Rightarrow> ndarray \<Rightarrow> error + ndarray" where
  "weight_entry eta total' w d a =
     (case py_div eta total' of
        Inl e \<Rightarrow> Inl e
      | Inr c \<Rightarrow>
     (case np_dot d (np_T a) of
        Inl e \<Rightarrow> Inl e
      | Inr p \<Rightarrow> np_sub w (np_scale c p)))"

definition update_weights_cell ::
  "string \<Rightarrow> real \<Rightarrow> real \<Rightarrow> ndarray net \<Rightarrow> (error + unit) \<times> ndarray net" where
  "update_weights_cell after_backslash eta total' self =
     (case line_continuation after_backslash of
        Inl e \<Rightarrow> (Inl e, self)
      | Inr u \<Rightarrow>
     (case weights self of
        None \<Rightarrow> (Inl (AttributeError ''weights''), self)
      | Some ws \<Rightarrow>
     (case deltas self of
        None \<Rightarrow> (Inl (AttributeError ''deltas''), self)
      | Some ds \<Rightarrow>
     (case activations self of
        None \<Rightarrow> (Inl (AttributeError ''activations''), self)
      | Some as \<Rightarrow>
     (case comprehension (map (\<lambda>(w, d, a). weight_entry eta total' w d a) (zip ws (zip ds as))) of
        Inl e \<Rightarrow> (Inl e, self)
      | Inr ws' \<Rightarrow> (Inr (), self\<lparr>weights := Some ws'\<rparr>))))))"

definition update_weights :: "real \<Rightarrow> real \<Rightarrow> ndarray net \<Rightarrow> (error + unit) \<times> ndarray net" where
  "update_weights = update_weights_cell '' ''"

text \<open>
  What the update reads, position by position, for a network of shape
  \<open>[n0, \<dots>, n(L-1)]\<close> and a batch of \<open>k\<close> examples: the weight of layer \<open>l\<close>, the delta
  of layer \<open>l\<close> and the activation of layer \<open>l-1\<close>. The list of activations starts with
  the batch itself (layer 0), so it has one entry more than the other two.
\<close>

fun update_aligned ::
  "nat list \<Rightarrow> nat \<Rightarrow> ndarray list \<Rightarrow> ndarray list \<Rightarrow> ndarray list \<Rightarrow> bool" where
  "update_aligned (m # n # ns) k (w # ws) (d # ds) (a # as) =
     (wf_ndarray w \<and> shape_of w = (n, m) \<and> wf_ndarray d \<and> shape_of d = (n, k) \<and>
      wf_ndarray a \<and> shape_of a = (m, k) \<and> update_aligned (n # ns) k ws ds as)"
| "update_aligned [n] k [] [] as = True"
| "update_aligned _ _ _ _ _ = False"

text \<open>
  The array \<open>w'\<close> has the shape of \<open>w\<close> and is \<open>w\<close> minus \<open>c\<close> times the product of
  \<open>d\<close> with the transpose of \<open>a\<close>, entry by entry, where \<open>d\<close> and \<open>a\<close> have \<open>k\<close>
  columns.
\<close>

definition weight_updated ::
  "real \<Rightarrow> nat \<Rightarrow> ndarray \<Rightarrow> ndarray \<Rightarrow> ndarray \<Rightarrow> ndarray \<Rightarrow> bool" where
  "weight_updated c k w d a w' \<longleftrightarrow>
     wf_ndarray w' \<and> shape_of w' = shape_of w \<and>
     (\<forall>i<nrows w. \<forall>j<ncols w.
        elem w' i j = elem w i j - c * (\<Sum>t<k. elem d i t * elem a j t))"

section \<open>The sigmoid\<close>

text \<open>
  \<^verbatim>\<open>1 / (1 + np.exp(-x))\<close>. Here the range of \<^verbatim>\<open>float64\<close> matters, so an
  intermediate value is a finite number or \<^verbatim>\<open>inf\<close>: \<^verbatim>\<open>np.exp\<close> overflows to
  \<^verbatim>\<open>inf\<close> when the exponential is beyond the largest finite \<^verbatim>\<open>float64\<close>,
  \<open>(2 - 2\<^sup>-\<^sup>5\<^sup>2) \<sqdot> 2\<^sup>1\<^sup>0\<^sup>2\<^sup>3\<close>, and a finite number divided by \<^verbatim>\<open>inf\<close> is 0.
  Rounding of the finite values is still not modelled.
\<close>

definition DBL_MAX :: real where
  "DBL_MAX = (2 ^ 53 - 1) * 2 ^ 971"

datatype float64 = Finite real | Infinity

definition np_exp :: "real \<Rightarrow> float64" where
  "np_exp y = (if DBL_MAX < exp y then Infinity else Finite (exp y))"

definition fp_add :: "real \<Rightarrow> float64 \<Rightarrow> float64" where
  "fp_add c v =
     (case v of
        Infinity \<Rightarrow> Infinity
      | Finite r \<Rightarrow> if DBL_MAX < c + r then Infinity else Finite (c + r))"

text \<open>The divisor of the sigmoid is at least 1, so division by zero does not arise.\<close>

definition fp_div :: "real \<Rightarrow> float64 \<Rightarrow> real" where
  "fp_div c v = (case v of Infinity \<Rightarrow> 0 | Finite r \<Rightarrow> c / r)"

definition sigmoid_entry :: "real \<Rightarrow> real" where
  "sigmoid_entry x = fp_div 1 (fp_add 1 (np_exp (- x)))"

definition sigmoid :: "ndarray \<Rightarrow> ndarray" where
  "sigmoid x = np_map sigmoid_entry x"

text \<open>Evaluating the sigmoid at \<open>x\<close> overflows: an intermediate value is \<^verbatim>\<open>inf\<close>.\<close>

definition entry_overflows :: "real \<Rightarrow> bool" where
  "entry_overflows x \<longleftrightarrow> fp_add 1 (np_exp (- x)) = Infinity"

definition sigmoid_overflows :: "ndarray \<Rightarrow> bool" where
  "sigmoid_overflows x \<longleftrightarrow> list_ex (list_ex entry_overflows) (rows x)"

section \<open>Loading a model and constructing a network\<close>

text \<open>\<^verbatim>\<open>data[key]\<close> for a string key, and iteration over a value.\<close>

fun py_getitem :: "pyval \<Rightarrow> string \<Rightarrow> error + pyval" where
  "py_getitem (PDict kvs) k = (case map_of kvs k of None \<Rightarrow> Inl (KeyError k) | Some v \<Rightarrow> Inr v)"
| "py_getitem _ k = Inl TypeError"

fun py_iter :: "pyval \<Rightarrow> error + pyval list" where
  "py_iter (PList xs) = Inr xs"
| "py_iter (PStr s) = Inr (map (\<lambda>c. PStr [c]) s)"
| "py_iter (PDict kvs) = Inr (map (\<lambda>kv. PStr (fst kv)) kvs)"
| "py_iter _ = Inl TypeError"

text \<open>
  \<^verbatim>\<open>
  def load(self, file_location):
      with open(file_location, 'r') as fp:
          data = json.load(fp)
      try:
          self.shape = data["shape"]
          self.weights = [np.array(w) for w in data["weights"]]
          self.biases = [np.array(b) for b in data["biases"]]
      except KeyError as e:
          print("Load failed, the json file does not contain the required key ", e)
          raise
  \<close>
  The file system and the allocator are the environment: \<open>open_json\<close> is
  \<^verbatim>\<open>open\<close> followed by \<^verbatim>\<open>json.load\<close>, which returns the parsed document or
  raises; \<open>np_array\<close> is \<^verbatim>\<open>np.array\<close>, which returns an array or raises
  (\<^verbatim>\<open>MemoryError\<close> when the allocation fails).
\<close>

definition array_list :: "(pyval \<Rightarrow> error + 'a) \<Rightarrow> pyval \<Rightarrow> string \<Rightarrow> error + 'a list" where
  "array_list np_array d key =
     (case py_getitem d key of
        Inl e \<Rightarrow> Inl e
      | Inr v \<Rightarrow>
     (case py_iter v of
        Inl e \<Rightarrow> Inl e
      | Inr xs \<Rightarrow> comprehension (map np_array xs)))"

definition load_except :: "error \<Rightarrow> 'a net \<Rightarrow> (error + unit) \<times> 'a net" where
  "load_except e self =
     (case e of
        KeyError k \<Rightarrow> (Inl e, self\<lparr>printed := printed self @ [LoadFailedMissingKey e]\<rparr>)
      | _ \<Rightarrow> (Inl e, self))"

definition load ::
  "(string \<Rightarrow> error + pyval) \<Rightarrow> (pyval \<Rightarrow> error + 'a) \<Rightarrow> string \<Rightarrow> 'a net \<Rightarrow> (error + unit) \<times> 'a net" where
  "load open_json np_array file_location self =
     (case open_json file_location of
        Inl e \<Rightarrow> (Inl e, self)
      | Inr d \<Rightarrow>
     (case py_getitem d ''shape'' of
        Inl e \<Rightarrow> load_except e self
      | Inr s \<Rightarrow>
     (let self1 = self\<lparr>shape := Some s\<rparr> in
     (case array_list np_array d ''weights'' of
        Inl e \<Rightarrow> load_except e self1
      | Inr ws \<Rightarrow>
     (let self2 = self1\<lparr>weights := Some ws\<rparr> in
     (case array_list np_array d ''biases'' of
        Inl e \<Rightarrow> load_except e self2
      | Inr bs \<Rightarrow> (Inr (), self2\<lparr>biases := Some bs\<rparr>)))))))"

text \<open>
  The methods \<^verbatim>\<open>_init_weights\<close>, \<^verbatim>\<open>_init_biases\<close>, \<^verbatim>\<open>_init_activations\<close>,
  \<^verbatim>\<open>_init_outputs\<close> and \<^verbatim>\<open>_init_dropouts\<close> are called by the constructor and
  not shown in the notebook: they are parameters here, each a function on the object
  that can raise.
\<close>

record 'a init_methods =
  init_weights :: "'a net \<Rightarrow> (error + unit) \<times> 'a net"
  init_biases :: "'a net \<Rightarrow> (error + unit) \<times> 'a net"
  init_activations :: "'a net \<Rightarrow> (error + unit) \<times> 'a net"
  init_outputs :: "'a net \<Rightarrow> (error + unit) \<times> 'a net"
  init_dropouts :: "'a net \<Rightarrow> (error + unit) \<times> 'a net"

text \<open>Statements in sequence: the second runs only if the first did not raise.\<close>

definition and_then ::
  "(error + unit) \<times> 'a net \<Rightarrow> ('a net \<Rightarrow> (error + unit) \<times> 'a net) \<Rightarrow> (error + unit) \<times> 'a net" where
  "and_then r f = (case r of (Inl e, s) \<Rightarrow> (Inl e, s) | (Inr u, s) \<Rightarrow> f s)"

text \<open>\<^verbatim>\<open>except FileNotFoundError\<close> / \<^verbatim>\<open>except MemoryError\<close>: print the message, raise again.\<close>

definition reraise_printing :: "bool \<Rightarrow> (error + unit) \<times> 'a net \<Rightarrow> (error + unit) \<times> 'a net" where
  "reraise_printing file_too r =
     (case r of
        (Inl MemoryError, s) \<Rightarrow> (Inl MemoryError, s\<lparr>printed := printed s @ [MEMORYERROR_MESSAGE]\<rparr>)
      | (Inl FileNotFoundError, s) \<Rightarrow>
          (if file_too
           then (Inl FileNotFoundError, s\<lparr>printed := printed s @ [FILENOTFOUNDERROR_MESSAGE]\<rparr>)
           else (Inl FileNotFoundError, s))
      | _ \<Rightarrow> r)"

text \<open>
  \<^verbatim>\<open>
  if isinstance(shape_or_file, str):
      try:
          self.load(shape_or_file)
      except FileNotFoundError:
          print(self.FILENOTFOUNDERROR_MESSAGE)
          raise
      except MemoryError:
          print(self.MEMORYERROR_MESSAGE)
          raise
  elif isinstance(shape_or_file, list):
      if len(shape_or_file) < 2:
          print(self.WRONGSHAPE_MESSAGE)
          raise ValueError
      try:
          self.shape = shape_or_file
          self.activation = activation
          self._init_weights()
          self._init_biases()
          self._init_activations()
          self._init_outputs()
          if dropout:
              self._init_dropouts()
      except MemoryError:
          print(self.MEMORYERROR_MESSAGE)
          raise
  \<close>
\<close>

definition init ::
  "(string \<Rightarrow> error + pyval) \<Rightarrow> (pyval \<Rightarrow> error + 'a) \<Rightarrow> 'a init_methods \<Rightarrow>
   pyval \<Rightarrow> (real \<Rightarrow> real) \<Rightarrow> bool \<Rightarrow> 'a net \<Rightarrow> (error + unit) \<times> 'a net" where
  "init open_json np_array methods shape_or_file activation_arg dropout self =
     (case shape_or_file of
        PStr file \<Rightarrow> reraise_printing True (load open_json np_array file self)
      | PList xs \<Rightarrow>
          (if length xs < 2
           then (Inl ValueError, self\<lparr>printed := printed self @ [WRONGSHAPE_MESSAGE]\<rparr>)
           else reraise_printing False
                  (and_then (and_then (and_then (and_then
                     (init_weights methods
                        (self\<lparr>shape := Some shape_or_file, activation := Some activation_arg\<rparr>))
                     (init_biases methods))
                     (init_activations methods))
                     (init_outputs methods))
                     (\<lambda>s. if dropout then init_dropouts methods s else (Inr (), s))))
      | _ \<Rightarrow> (Inr (), self))"

text \<open>An object before its constructor has run: no attribute is set, nothing printed.\<close>

definition empty_net :: "'a net" where
  "empty_net =
     \<lparr>shape = None, weights = None, biases = None, activation = None, outputs = None,
      activations = None, deltas = None, data = None, target = None, test_data = None,
      test_labels = None, testing_error = None, printed = []\<rparr>"

text \<open>
  \<^verbatim>\<open>NeuralNetwork(shape_or_file, ...)\<close>: the caller gets the object only if the
  constructor returns; if it raises, the caller gets the exception and what was printed.
\<close>

definition NeuralNetwork ::
  "(string \<Rightarrow> error + pyval) \<Rightarrow> (pyval \<Rightarrow> error + 'a) \<Rightarrow> 'a init_methods \<Rightarrow>
   pyval \<Rightarrow> (real \<Rightarrow> real) \<Rightarrow> bool \<Rightarrow> (error + 'a net) \<times> message list" where
  "NeuralNetwork open_json np_array methods shape_or_file activation_arg dropout =
     (case init open_json np_array methods shape_or_file activation_arg dropout empty_net of
        (Inl e, s) \<Rightarrow> (Inl e, printed s)
      | (Inr u, s) \<Rightarrow> (Inr s, printed s))"

section \<open>Training and test data\<close>

text \<open>
  \<^verbatim>\<open>
  train_data = np.array(train_data)
  train_labels = np.array(train_labels)
  self.data = train_data.T
  self.target = train_labels.T
  \<close>
  The arguments are two-dimensional arrays, one example per row; \<^verbatim>\<open>np.array\<close> of
  an array is a copy of it.
\<close>

definition set_training_data :: "ndarray \<Rightarrow> ndarray \<Rightarrow> ndarray net \<Rightarrow> ndarray net" where
  "set_training_data train_data train_labels self =
     self\<lparr>data := Some (np_T train_data), target := Some (np_T train_labels)\<rparr>"

text \<open>
  \<^verbatim>\<open>
  if test_data is not None and test_labels is not None:
      self.test_data = np.array(test_data).T
      self.test_labels = np.array(test_labels).T
      self.testing_error = []
  \<close>
\<close>

definition set_test_data :: "ndarray option \<Rightarrow> ndarray option \<Rightarrow> ndarray net \<Rightarrow> ndarray net" where
  "set_test_data test_data_arg test_labels_arg self =
     (case (test_data_arg, test_labels_arg) of
        (Some tdata, Some tlabels) \<Rightarrow>
          self\<lparr>test_data := Some (np_T tdata), test_labels := Some (np_T tlabels),
               testing_error := Some []\<rparr>
      | _ \<Rightarrow> self)"

section \<open>The deltas\<close>

text \<open>
  Modelled from the spec: \<open>backward\<close>, the computation of the deltas. The notebook
  states the equations of the deltas and their dimensions, and no code that computes
  them, so the function below follows section 4.4 of the specification,
  \<open>backward(store, outputs, activations, masks, target)\<close>:
  \<open>delta[L-1] = (activations[L-1] - target) \<odot> activationDerivative(outputs[L-1])\<close>
  and, for \<open>l\<close> from \<open>L-2\<close> down to 1,
  \<open>delta[l] = (weight[l+1]\<^sup>T \<sqdot> delta[l+1]) \<odot> activationDerivative(outputs[l])\<close>; if
  a dropout mask was applied to \<open>activations[l]\<close> in the forward pass, the same mask is
  applied elementwise to \<open>delta[l]\<close> before it is used further. The lists hold
  \<open>weight[1..L-1]\<close>, \<open>outputs[1..L-1]\<close>, \<open>activations[0..L-1]\<close> and, aligned with
  the outputs, the masks: \<open>Some m\<close> for a layer whose activation was masked with \<open>m\<close>,
  \<open>None\<close> for a layer without dropout. The specification masks hidden layers only, so
  the entry of the last layer is not read. The result holds \<open>delta[1..L-1]\<close>. The
  elementwise operations take operands of one shape.
\<close>

definition elementwise :: "(real \<Rightarrow> real \<Rightarrow> real) \<Rightarrow> ndarray \<Rightarrow> ndarray \<Rightarrow> error + ndarray" where
  "elementwise f a b =
     (if shape_of a \<noteq> shape_of b then Inl ValueError
      else Inr (mk_ndarray (nrows a) (ncols a) (\<lambda>i j. f (elem a i j) (elem b i j))))"

definition apply_mask :: "ndarray option \<Rightarrow> ndarray \<Rightarrow> error + ndarray" where
  "apply_mask dmask d = (case dmask of None \<Rightarrow> Inr d | Some m \<Rightarrow> elementwise (*) d m)"

definition delta_last :: "(real \<Rightarrow> real) \<Rightarrow> ndarray \<Rightarrow> ndarray \<Rightarrow> ndarray \<Rightarrow> error + ndarray" where
  "delta_last derivative a y out =
     (case elementwise (-) a y of
        Inl e \<Rightarrow> Inl e
      | Inr diff \<Rightarrow> elementwise (*) diff (np_map derivative out))"

definition delta_step ::
  "(real \<Rightarrow> real) \<Rightarrow> ndarray \<Rightarrow> ndarray \<Rightarrow> ndarray \<Rightarrow> ndarray option \<Rightarrow> error + ndarray" where
  "delta_step derivative w_next d_next out dmask =
     (case np_dot (np_T w_next) d_next of
        Inl e \<Rightarrow> Inl e
      | Inr p \<Rightarrow>
     (case elementwise (*) p (np_map derivative out) of
        Inl e \<Rightarrow> Inl e
      | Inr d \<Rightarrow> apply_mask dmask d))"

fun backward_from ::
  "(real \<Rightarrow> real) \<Rightarrow> ndarray list \<Rightarrow> ndarray list \<Rightarrow> ndarray option list \<Rightarrow>
   ndarray \<Rightarrow> ndarray \<Rightarrow> error + ndarray list" where
  "backward_from derivative [w] [out] [dmask] a y =
     (case delta_last derivative a y out of Inl e \<Rightarrow> Inl e | Inr d \<Rightarrow> Inr [d])"
| "backward_from derivative (w # w_next # ws) (out # outs) (dmask # masks) a y =
     (case backward_from derivative (w_next # ws) outs masks a y of
        Inl e \<Rightarrow> Inl e
      | Inr ds \<Rightarrow>
          (case ds of
             [] \<Rightarrow> Inl ValueError
           | d_next # ds' \<Rightarrow>
               (case delta_step derivative w_next d_next out dmask of
                  Inl e \<Rightarrow> Inl e
                | Inr d \<Rightarrow> Inr (d # ds))))"
| "backward_from derivative _ _ _ a y = Inl ValueError"

definition backward ::
  "(real \<Rightarrow> real) \<Rightarrow> ndarray list \<Rightarrow> ndarray list \<Rightarrow> ndarray list \<Rightarrow> ndarray option list \<Rightarrow>
   ndarray \<Rightarrow> error + ndarray list" where
  "backward derivative ws outs acts masks y =
     (case acts of
        [] \<Rightarrow> Inl ValueError
      | a0 # rest \<Rightarrow> backward_from derivative ws outs masks (last acts) y)"

text \<open>
  What \<open>backward\<close> is given for a network of shape \<open>[n0, \<dots>, n(L-1)]\<close> and a batch of
  \<open>k\<close> examples: for each layer \<open>l\<close> from 1 to \<open>L-1\<close>, a weight of shape
  \<open>(n(l), n(l-1))\<close>, an output of shape \<open>(n(l), k)\<close> and either no mask or a mask of
  the shape of the output.
\<close>

definition mask_fits :: "nat \<Rightarrow> nat \<Rightarrow> ndarray option \<Rightarrow> bool" where
  "mask_fits n k dmask =
     (case dmask of None \<Rightarrow> True | Some m \<Rightarrow> wf_ndarray m \<and> shape_of m = (n, k))"

fun backward_aligned ::
  "nat list \<Rightarrow> nat \<Rightarrow> ndarray list \<Rightarrow> ndarray list \<Rightarrow> ndarray option list \<Rightarrow> bool" where
  "backward_aligned (m # n # ns) k (w # ws) (out # outs) (dmask # masks) =
     (wf_ndarray w \<and> shape_of w = (n, m) \<and> wf_ndarray out \<and> shape_of out = (n, k) \<and>
      mask_fits n k dmask \<and> backward_aligned (n # ns) k ws outs masks)"
| "backward_aligned [n] k [] [] [] = True"
| "backward_aligned _ _ _ _ _ = False"

text \<open>
  The two equations of the deltas, entry by entry: \<open>d\<close> is
  \<open>(a - y) \<odot> derivative(out)\<close>, and \<open>d\<close> is
  \<open>(w_next\<^sup>T \<sqdot> d_next) \<odot> derivative(out)\<close>, multiplied by the mask if there is one;
  in both, \<open>d\<close> is well formed and has the shape of \<open>out\<close>.
\<close>

definition is_delta_last ::
  "(real \<Rightarrow> real) \<Rightarrow> ndarray \<Rightarrow> ndarray \<Rightarrow> ndarray \<Rightarrow> ndarray \<Rightarrow> bool" where
  "is_delta_last derivative a y out d \<longleftrightarrow>
     wf_ndarray d \<and> shape_of d = shape_of out \<and>
     (\<forall>i<nrows out. \<forall>j<ncols out.
        elem d i j = (elem a i j - elem y i j) * derivative (elem out i j))"

definition is_delta_step ::
  "(real \<Rightarrow> real) \<Rightarrow> ndarray \<Rightarrow> ndarray \<Rightarrow> ndarray \<Rightarrow> ndarray option \<Rightarrow> ndarray \<Rightarrow> bool" where
  "is_delta_step derivative w_next d_next out dmask d \<longleftrightarrow>
     wf_ndarray d \<and> shape_of d = shape_of out \<and>
     (\<forall>i<nrows out. \<forall>j<ncols out.
        elem d i j =
          (case dmask of
             None \<Rightarrow>
               (\<Sum>t<nrows w_next. elem w_next t i * elem d_next t j) * derivative (elem out i j)
           | Some m \<Rightarrow>
               (\<Sum>t<nrows w_next. elem w_next t i * elem d_next t j) * derivative (elem out i j) *
               elem m i j))"

section \<open>Consistency of a persisted document\<close>

text \<open>
  The consistency that the specification asks \<^verbatim>\<open>load\<close> to verify, in the
  specification's words: for a declared shape of length \<open>L\<close> there are \<open>L-1\<close> weight
  entries and \<open>L-1\<close> bias entries, the weight of layer \<open>l\<close> is a nested array of
  dimensions \<open>shape[l] \<times> shape[l-1]\<close> and the bias one of dimensions \<open>shape[l] \<times> 1\<close>.
\<close>

fun is_num :: "pyval \<Rightarrow> bool" where
  "is_num (PNum x) = True"
| "is_num _ = False"

fun row_length :: "pyval \<Rightarrow> nat option" where
  "row_length (PList xs) = (if list_all is_num xs then Some (length xs) else None)"
| "row_length _ = None"

fun py_dims :: "pyval \<Rightarrow> (nat \<times> nat) option" where
  "py_dims (PList (r # rs)) =
     (case row_length r of
        None \<Rightarrow> None
      | Some c \<Rightarrow>
          if list_all (\<lambda>x. row_length x = Some c) rs then Some (Suc (length rs), c) else None)"
| "py_dims _ = None"

fun py_nat :: "pyval \<Rightarrow> nat option" where
  "py_nat (PNum x) = (if 0 \<le> x \<and> of_int \<lfloor>x\<rfloor> = x then Some (nat \<lfloor>x\<rfloor>) else None)"
| "py_nat _ = None"

fun entries_match :: "nat list \<Rightarrow> pyval list \<Rightarrow> pyval list \<Rightarrow> bool" where
  "entries_match [n] [] [] = True"
| "entries_match (m # n # ns) (w # ws) (b # bs) =
     (py_dims w = Some (n, m) \<and> py_dims b = Some (n, 1) \<and> entries_match (n # ns) ws bs)"
| "entries_match _ _ _ = False"

definition doc_consistent :: "pyval \<Rightarrow> bool" where
  "doc_consistent d =
     (case (py_getitem d ''shape'', py_getitem d ''weights'', py_getitem d ''biases'') of
        (Inr (PList s), Inr (PList ws), Inr (PList bs)) \<Rightarrow>
          (case those (map py_nat s) of
             None \<Rightarrow> False
           | Some ns \<Rightarrow> entries_match ns ws bs)
      | _ \<Rightarrow> False)"

section \<open>Concrete inputs\<close>

text \<open>
  Two persisted documents. The first declares the shape \<open>[2, 1]\<close> and gives a weight
  of dimensions \<open>1 \<times> 3\<close>; the second declares a shape and has no \<^verbatim>\<open>"weights"\<close>.
\<close>

definition doc_wrong_dims :: pyval where
  "doc_wrong_dims =
     PDict [(''shape'', PList [PNum 2, PNum 1]),
            (''weights'', PList [PList [PList [PNum 1, PNum 2, PNum 3]]]),
            (''biases'', PList [PList [PList [PNum 0]]])]"

definition doc_no_weights :: pyval where
  "doc_no_weights = PDict [(''shape'', PList [PNum 2, PNum 1])]"

definition disk :: "string \<Rightarrow> error + pyval" where
  "disk path =
     (if path = ''wrong_dims.json'' then Inr doc_wrong_dims
      else if path = ''no_weights.json'' then Inr doc_no_weights
      else Inl FileNotFoundError)"

text \<open>
  An array is determined by the nested list it is built from. Where the arrays are only
  stored, \<^verbatim>\<open>np.array\<close> with an allocator that never fails is this embedding.
\<close>

definition np_array_nested :: "pyval \<Rightarrow> error + pyval" where
  "np_array_nested v = Inr v"

text \<open>
  Initialisation methods that allocate: each sets its attribute to a list with one
  array.
\<close>

definition allocating_methods :: "pyval init_methods" where
  "allocating_methods =
     \<lparr>init_weights = (\<lambda>s. (Inr (), s\<lparr>weights := Some [PList [PList [PNum 0]]]\<rparr>)),
      init_biases = (\<lambda>s. (Inr (), s\<lparr>biases := Some [PList [PList [PNum 0]]]\<rparr>)),
      init_activations = (\<lambda>s. (Inr (), s\<lparr>activations := Some [PList [PList [PNum 0]]]\<rparr>)),
      init_outputs = (\<lambda>s. (Inr (), s\<lparr>outputs := Some [PList [PList [PNum 0]]]\<rparr>)),
      init_dropouts = (\<lambda>s. (Inr (), s))\<rparr>"

text \<open>A restored network of shape \<open>[3, 1]\<close>, as a successful \<^verbatim>\<open>load\<close> leaves it.\<close>

definition net_3_1 :: "pyval net" where
  "net_3_1 =
     empty_net\<lparr>shape := Some (PList [PNum 3, PNum 1]),
               weights := Some [PList [PList [PNum 1, PNum 1, PNum 1]]],
               biases := Some [PList [PList [PNum 0]]]\<rparr>"

text \<open>
  A network of shape \<open>[2, 1]\<close> with the identity as activation, ready for a forward
  pass, a batch of two examples for it, and the deltas and activations of that pass.
\<close>

definition linear_activation :: "real \<Rightarrow> real" where
  "linear_activation x = x"

definition net_2_1 :: "ndarray net" where
  "net_2_1 =
     empty_net\<lparr>shape := Some (PList [PNum 2, PNum 1]),
               weights := Some [NDArray 1 2 [[1, 2]]],
               biases := Some [NDArray 1 1 [[3]]],
               activation := Some linear_activation,
               outputs := Some [],
               activations := Some [NDArray 2 2 [[1, 0], [0, 1]]],
               deltas := Some [NDArray 1 2 [[1, 1]]]\<rparr>"

definition batch_2_2 :: ndarray where
  "batch_2_2 = NDArray 2 2 [[1, 0], [0, 1]]"

text \<open>
  Training data as a caller supplies it, one example per row: two examples with three
  features and one label each, and one test example.
\<close>

definition train_2_3 :: ndarray where
  "train_2_3 = NDArray 2 3 [[1, 2, 3], [4, 5, 6]]"

definition labels_2_1 :: ndarray where
  "labels_2_1 = NDArray 2 1 [[0], [1]]"

definition test_1_3 :: ndarray where
  "test_1_3 = NDArray 1 3 [[7, 8, 9]]"

definition test_labels_1_1 :: ndarray where
  "test_labels_1_1 = NDArray 1 1 [[1]]"

text \<open>
  An activation for the examples of back propagation: the square, with derivative
  \<open>2x\<close>. Its derivative at an output differs from its derivative at the activation of
  that output.
\<close>

definition square_derivative :: "real \<Rightarrow> real" where
  "square_derivative x = 2 * x"

text \<open>
  The intermediates of a training pass through a network of shape \<open>[2, 2, 1]\<close> with
  the square as activation, no biases, dropout on the hidden layer and a batch of two
  examples: weights, outputs, the mask of the hidden layer, activations (the batch
  first; the hidden activation is the square of the output times the mask), and a
  target.
\<close>

definition weights_2_2_1 :: "ndarray list" where
  "weights_2_2_1 = [NDArray 2 2 [[1, 0], [0, 1]], NDArray 1 2 [[1, - 1]]]"

definition outputs_2_2_1 :: "ndarray list" where
  "outputs_2_2_1 = [NDArray 2 2 [[1, - 2], [3, 4]], NDArray 1 2 [[- 9, - 12]]]"

definition masks_2_2_1 :: "ndarray option list" where
  "masks_2_2_1 = [Some (NDArray 2 2 [[0, 1], [1, 1]]), None]"

definition activations_2_2_1 :: "ndarray list" where
  "activations_2_2_1 =
     [NDArray 2 2 [[1, - 2], [3, 4]], NDArray 2 2 [[0, 4], [9, 16]], NDArray 1 2 [[81, 144]]]"

definition target_1_2 :: ndarray where
  "target_1_2 = NDArray 1 2 [[80, 145]]"

section \<open>Properties of the array operations\<close>

lemma nrows_mk [simp]: "nrows (mk_ndarray r c f) = r"
  by (simp add: mk_ndarray_def)

lemma ncols_mk [simp]: "ncols (mk_ndarray r c f) = c"
  by (simp add: mk_ndarray_def)

lemma wf_mk [simp]: "wf_ndarray (mk_ndarray r c f)"
  by (simp add: mk_ndarray_def wf_ndarray_def list_all_iff)

lemma elem_mk [simp]: "i < r \<Longrightarrow> j < c \<Longrightarrow> elem (mk_ndarray r c f) i j = f i j"
  by (simp add: mk_ndarray_def elem_def)

lemma np_dot_shape:
  "ncols a = nrows b \<Longrightarrow>
   \<exists>p. np_dot a b = Inr p \<and> wf_ndarray p \<and> shape_of p = (nrows a, ncols b)"
  by (simp add: np_dot_def shape_of_def)

lemma np_add_column:
  "nrows p = nrows b \<Longrightarrow> ncols b = 1 \<Longrightarrow>
   \<exists>r. np_add p b = Inr r \<and> wf_ndarray r \<and> shape_of r = (nrows p, ncols p)"
  by (simp add: np_add_def np_binop_def broadcast_dim_def shape_of_def)

lemma np_map_shape [simp]: "shape_of (np_map f a) = shape_of a"
  by (simp add: np_map_def shape_of_def)

lemma wf_np_map [simp]: "wf_ndarray (np_map f a)"
  by (simp add: np_map_def)

section \<open>The forward pass\<close>







lemma loop_body_shapes:
  assumes "shape_of w = (n, m)" "shape_of b = (n, 1)" "shape_of x = (m, k)"
    and "outputs self = Some outs" "activations self = Some acts" "activation self = Some f"
  shows "\<exists>r y. loop_body w b x self =
           (Inr y, self\<lparr>outputs := Some (outs @ [r]), activations := Some (acts @ [y])\<rparr>) \<and>
         wf_ndarray r \<and> shape_of r = (n, k) \<and> wf_ndarray y \<and> shape_of y = (n, k)"
proof -
  from assms(1,3) have "ncols w = nrows x" by (simp add: shape_of_def)
  from np_dot_shape [OF this] obtain p where
    p: "np_dot w x = Inr p" "shape_of p = (nrows w, ncols x)" by blast
  from p(2) assms(1,2) have "nrows p = nrows b" "ncols b = 1" by (simp_all add: shape_of_def)
  from np_add_column [OF this] obtain r where
    r: "np_add p b = Inr r" "wf_ndarray r" "shape_of r = (nrows p, ncols p)" by blast
  have rs: "shape_of r = (n, k)" using r(3) p(2) assms(1,3) by (simp add: shape_of_def)
  have "loop_body w b x self =
      (Inr (np_map f r), self\<lparr>outputs := Some (outs @ [r]), activations := Some (acts @ [np_map f r])\<rparr>)"
    by (simp add: loop_body_def Let_def p(1) r(1) assms(4,5,6))
  then show ?thesis using r(2) rs by auto
qed

lemma feed_forward_shapes:
  assumes "store_matches (m # ns) ws bs" "shape_of x = (m, k)"
    and "outputs self = Some outs" "activations self = Some acts" "activation self = Some f"
  shows "\<exists>y os as. feed_forward (zip ws bs) x self =
           (Inr y, self\<lparr>outputs := Some (outs @ os), activations := Some (acts @ as)\<rparr>) \<and>
         shape_of y = (last (m # ns), k) \<and> last (x # as) = y \<and>
         layer_shapes ns k os \<and> layer_shapes ns k as"
  using assms
proof (induction ns arbitrary: m ws bs x self outs acts)
  case Nil
  then have "ws = [] \<and> bs = []" by (cases ws; cases bs) simp_all
  then have "feed_forward (zip ws bs) x self =
     (Inr x, self\<lparr>outputs := Some (outs @ []), activations := Some (acts @ [])\<rparr>)"
    using Nil by simp
  then show ?case using Nil(2) by (intro exI [of _ x] exI [of _ "[]"]) simp
next
  case (Cons n ns)
  from Cons.prems(1) obtain w ws' b bs' where
    ws: "ws = w # ws'" and bs: "bs = b # bs'" by (cases ws; cases bs) simp_all
  from Cons.prems(1) have w: "shape_of w = (n, m)" and b: "shape_of b = (n, 1)"
    and rest: "store_matches (n # ns) ws' bs'" by (simp_all add: ws bs)
  from loop_body_shapes [OF w b Cons.prems(2,3,4,5)] obtain r y where
    step: "loop_body w b x self = (Inr y, self\<lparr>outputs := Some (outs @ [r]), activations := Some (acts @ [y])\<rparr>)"
    and r: "wf_ndarray r" "shape_of r = (n, k)" and y: "wf_ndarray y" "shape_of y = (n, k)" by blast
  let ?s = "self\<lparr>outputs := Some (outs @ [r]), activations := Some (acts @ [y])\<rparr>"
  have "outputs ?s = Some (outs @ [r])" "activations ?s = Some (acts @ [y])" "activation ?s = Some f"
    using Cons.prems(5) by simp_all
  from Cons.IH [OF rest y(2) this] obtain z os as where
    ih: "feed_forward (zip ws' bs') y ?s =
           (Inr z, ?s\<lparr>outputs := Some ((outs @ [r]) @ os), activations := Some ((acts @ [y]) @ as)\<rparr>)"
        "shape_of z = (last (n # ns), k)" "last (y # as) = z"
        "layer_shapes ns k os" "layer_shapes ns k as" by blast
  have "feed_forward (zip ws bs) x self =
     (Inr z, self\<lparr>outputs := Some (outs @ (r # os)), activations := Some (acts @ (y # as))\<rparr>)"
    using ih(1) by (simp add: ws bs step)
  moreover have "layer_shapes (n # ns) k (r # os)" "layer_shapes (n # ns) k (y # as)"
    using r y ih(4,5) by simp_all
  moreover have "last (x # y # as) = z" using ih(3) by simp
  ultimately show ?case using ih(2) by (intro exI [of _ z] exI [of _ "r # os"] exI [of _ "y # as"]) simp
qed

text \<open>
  Claim C5. For a shape \<open>[n0, \<dots>, n(L-1)]\<close> of length at least 2, a parameter store
  matching it and a batch of dimensions \<open>(n0, k)\<close>, the forward pass returns a final
  activation of dimensions \<open>(n(L-1), k)\<close>, and every output and activation it appends
  has \<open>k\<close> columns: the appended outputs and activations are well-formed arrays of
  dimensions \<open>(n(l), k)\<close> for \<open>l\<close> from 1 to \<open>L-1\<close>, and the last activation is the
  value returned. Positive entries of the shape and \<open>k \<ge> 1\<close> are not needed.
\<close>

theorem forward_dimensions:
  assumes "2 \<le> length ns" and "store_matches ns ws bs"
    and "weights self = Some ws" and "biases self = Some bs"
    and "outputs self = Some outs" and "activations self = Some acts"
    and "activation self = Some f" and "shape_of x = (hd ns, k)"
  shows "\<exists>y os as.
           forward x self =
             (Inr y, self\<lparr>outputs := Some (outs @ os), activations := Some (acts @ as)\<rparr>) \<and>
           wf_ndarray y \<and> shape_of y = (last ns, k) \<and> last as = y \<and>
           layer_shapes (tl ns) k os \<and> layer_shapes (tl ns) k as"
proof -
  from assms(1) obtain m n ns' where ns: "ns = m # n # ns'"
    by (cases ns; cases "tl ns") auto
  have x: "shape_of x = (m, k)" using assms(8) by (simp add: ns)
  from feed_forward_shapes [OF assms(2) [unfolded ns] x assms(5,6,7)]
  obtain y os as where
    run: "feed_forward (zip ws bs) x self =
            (Inr y, self\<lparr>outputs := Some (outs @ os), activations := Some (acts @ as)\<rparr>)"
    and y: "shape_of y = (last (m # n # ns'), k)" "last (x # as) = y"
    and shapes: "layer_shapes (n # ns') k os" "layer_shapes (n # ns') k as"
    by blast
  from shapes(2) obtain a as' where as: "as = a # as'" by (cases as) simp_all
  have wf_all: "layer_shapes l k zs \<Longrightarrow> zs \<noteq> [] \<Longrightarrow> wf_ndarray (last zs)" for l zs
    by (induction l k zs rule: layer_shapes.induct) auto
  have "wf_ndarray (last as)" using wf_all [OF shapes(2)] as by simp
  moreover have "last as = y" using y(2) as by simp
  moreover have "forward x self =
      (Inr y, self\<lparr>outputs := Some (outs @ os), activations := Some (acts @ as)\<rparr>)"
    using run by (simp add: forward_def assms(3,4))
  ultimately show ?thesis using y(1) shapes by (auto simp: ns)
qed

text \<open>The network of shape \<open>[2, 1]\<close> on a batch of two examples.\<close>

theorem forward_dimensions_witness:
  "\<exists>y os as.
     forward batch_2_2 net_2_1 =
       (Inr y, net_2_1\<lparr>outputs := Some ([] @ os),
                       activations := Some ([NDArray 2 2 [[1, 0], [0, 1]]] @ as)\<rparr>) \<and>
     wf_ndarray y \<and> shape_of y = (last [2, 1], 2) \<and> last as = y \<and>
     layer_shapes (tl [2, 1]) 2 os \<and> layer_shapes (tl [2, 1]) 2 as"
proof -
  have h1: "2 \<le> length [2::nat, 1]" by simp
  have h2: "store_matches [2, 1] [NDArray 1 2 [[1, 2]]] [NDArray 1 1 [[3]]]"
    by (simp add: wf_ndarray_def shape_of_def)
  have h3: "weights net_2_1 = Some [NDArray 1 2 [[1, 2]]]" by (simp add: net_2_1_def)
  have h4: "biases net_2_1 = Some [NDArray 1 1 [[3]]]" by (simp add: net_2_1_def)
  have h5: "outputs net_2_1 = Some []" by (simp add: net_2_1_def)
  have h6: "activations net_2_1 = Some [NDArray 2 2 [[1, 0], [0, 1]]]" by (simp add: net_2_1_def)
  have h7: "activation net_2_1 = Some linear_activation" by (simp add: net_2_1_def)
  have h8: "shape_of batch_2_2 = (hd [2, 1], 2)" by (simp add: batch_2_2_def shape_of_def)
  show ?thesis by (rule forward_dimensions [OF h1 h2 h3 h4 h5 h6 h7 h8])
qed




section \<open>The constructor and \<^verbatim>\<open>load\<close>\<close>

text \<open>
  Claim C8. Constructing a network from a list of fewer than two entries raises
  \<^verbatim>\<open>ValueError\<close>, the exception that the specification calls
  \<open>ConfigurationError\<close>, after printing the message about the shape. The exception is
  raised before \<^verbatim>\<open>self.shape\<close> is assigned and before any of the \<^verbatim>\<open>_init_\<close>
  methods is called, whatever these methods are: every attribute of the object is as it
  was, so no weights, biases, outputs or activations are allocated, and the caller of
  \<^verbatim>\<open>NeuralNetwork(...)\<close> gets the exception and no object.
\<close>

theorem short_shape_rejected:
  assumes "length xs < 2"
  shows "init open_json np_array methods (PList xs) activation_arg dropout self =
           (Inl ValueError, self\<lparr>printed := printed self @ [WRONGSHAPE_MESSAGE]\<rparr>) \<and>
         NeuralNetwork open_json np_array methods (PList xs) activation_arg dropout =
           (Inl ValueError, [WRONGSHAPE_MESSAGE])"
  using assms by (simp add: init_def NeuralNetwork_def empty_net_def)

text \<open>The list \<open>[5]\<close>, with initialisation methods that would allocate.\<close>

theorem short_shape_rejected_witness:
  "init disk np_array_nested allocating_methods (PList [PNum 5]) linear_activation False net_3_1 =
     (Inl ValueError, net_3_1\<lparr>printed := printed net_3_1 @ [WRONGSHAPE_MESSAGE]\<rparr>) \<and>
   NeuralNetwork disk np_array_nested allocating_methods (PList [PNum 5]) linear_activation False =
     (Inl ValueError, [WRONGSHAPE_MESSAGE])"
proof -
  have h: "length [PNum 5] < 2" by simp
  show ?thesis by (rule short_shape_rejected [OF h])
qed

lemma load_no_weights:
  "load disk np_array_nested ''no_weights.json'' net_3_1 =
     (Inl (KeyError ''weights''),
      net_3_1\<lparr>shape := Some (PList [PNum 2, PNum 1]),
              printed := [LoadFailedMissingKey (KeyError ''weights'')]\<rparr>)"
  by (simp add: load_def disk_def doc_no_weights_def array_list_def load_except_def net_3_1_def
      empty_net_def)

text \<open>
  Claim C2, as stated: if \<^verbatim>\<open>load\<close> fails, the shape, the weights and the biases of
  the network are what they were before the call. On a restored network of shape
  \<open>[3, 1]\<close>, loading a document that declares the shape \<open>[2, 1]\<close> and has no
  \<^verbatim>\<open>"weights"\<close> raises \<^verbatim>\<open>KeyError\<close> and leaves the shape \<open>[2, 1]\<close> on the object,
  beside the old weights and biases.
\<close>

theorem load_partial_commit_counterexample:
  "fst (load disk np_array_nested ''no_weights.json'' net_3_1) = Inl (KeyError ''weights'') \<and>
   shape (snd (load disk np_array_nested ''no_weights.json'' net_3_1)) \<noteq> shape net_3_1"
  by (simp add: load_no_weights) (simp add: net_3_1_def)

lemma load_except_fst [simp]: "fst (load_except e s) = Inl e"
  by (simp add: load_except_def split: error.splits)

lemma load_fst_independent:
  "fst (load open_json np_array file_location s) = fst (load open_json np_array file_location s')"
  by (simp add: load_def Let_def split: sum.splits)

text \<open>
  Claim C2, amended. \<^verbatim>\<open>load\<close> assigns the shape, then the weights, then the biases,
  and a failure keeps the assignments made before it. If \<^verbatim>\<open>load\<close> fails, whatever the
  reason: the biases are what they were before the call; no attribute other than the
  shape and the weights changes (and a message may be printed); nothing at all changes
  if the file cannot be opened or parsed; the shape and the weights are unchanged if
  reading \<^verbatim>\<open>data["shape"]\<close> fails; in every other case the shape has been replaced by
  the shape of the document. When the constructor is given the path of the file, it
  raises the same exception, so its caller gets no object.
\<close>

theorem load_failure_state:
  assumes "fst (load open_json np_array file_location self) = Inl e"
  shows "biases (snd (load open_json np_array file_location self)) = biases self \<and>
         snd (load open_json np_array file_location self) =
           self\<lparr>shape := shape (snd (load open_json np_array file_location self)),
                weights := weights (snd (load open_json np_array file_location self)),
                printed := printed (snd (load open_json np_array file_location self))\<rparr> \<and>
         (case open_json file_location of
            Inl e' \<Rightarrow> snd (load open_json np_array file_location self) = self
          | Inr d \<Rightarrow>
              (case py_getitem d ''shape'' of
                 Inl e' \<Rightarrow>
                   shape (snd (load open_json np_array file_location self)) = shape self \<and>
                   weights (snd (load open_json np_array file_location self)) = weights self
               | Inr s \<Rightarrow> shape (snd (load open_json np_array file_location self)) = Some s)) \<and>
         fst (NeuralNetwork open_json np_array methods (PStr file_location) activation_arg dropout) = Inl e"
proof -
  have c: "fst (NeuralNetwork open_json np_array methods (PStr file_location) activation_arg dropout) = Inl e"
  proof -
    have "fst (load open_json np_array file_location empty_net) = Inl e"
      using assms load_fst_independent [of open_json np_array file_location empty_net self] by simp
    then obtain s where "load open_json np_array file_location (empty_net :: 'a net) = (Inl e, s)"
      by (cases "load open_json np_array file_location (empty_net :: 'a net)") simp
    then show ?thesis
      by (simp add: NeuralNetwork_def init_def reraise_printing_def split: error.splits)
  qed
  show ?thesis
    using assms c
    by (auto simp: load_def Let_def load_except_def split: sum.splits error.splits)
qed

text \<open>The document without \<^verbatim>\<open>"weights"\<close>, loaded into the network of shape \<open>[3, 1]\<close>.\<close>

theorem load_failure_state_witness:
  "biases (snd (load disk np_array_nested ''no_weights.json'' net_3_1)) = biases net_3_1 \<and>
   snd (load disk np_array_nested ''no_weights.json'' net_3_1) =
     net_3_1\<lparr>shape := shape (snd (load disk np_array_nested ''no_weights.json'' net_3_1)),
             weights := weights (snd (load disk np_array_nested ''no_weights.json'' net_3_1)),
             printed := printed (snd (load disk np_array_nested ''no_weights.json'' net_3_1))\<rparr> \<and>
   (case disk ''no_weights.json'' of
      Inl e' \<Rightarrow> snd (load disk np_array_nested ''no_weights.json'' net_3_1) = net_3_1
    | Inr d \<Rightarrow>
        (case py_getitem d ''shape'' of
           Inl e' \<Rightarrow>
             shape (snd (load disk np_array_nested ''no_weights.json'' net_3_1)) = shape net_3_1 \<and>
             weights (snd (load disk np_array_nested ''no_weights.json'' net_3_1)) = weights net_3_1
         | Inr s \<Rightarrow> shape (snd (load disk np_array_nested ''no_weights.json'' net_3_1)) = Some s)) \<and>
   fst (NeuralNetwork disk np_array_nested allocating_methods (PStr ''no_weights.json'')
          linear_activation False) = Inl (KeyError ''weights'')"
proof -
  have h: "fst (load disk np_array_nested ''no_weights.json'' net_3_1) = Inl (KeyError ''weights'')"
    by (simp add: load_no_weights)
  show ?thesis by (rule load_failure_state [OF h])
qed

text \<open>
  Claim C6, as stated: \<^verbatim>\<open>load\<close> fails, with the exception for a shape mismatch,
  whenever the weight and bias entries of the document are inconsistent with its declared
  shape. The document that declares the shape \<open>[2, 1]\<close> and gives a weight of
  dimensions \<open>1 \<times> 3\<close> is inconsistent, and \<^verbatim>\<open>load\<close> returns normally on it.
\<close>

theorem load_no_dimension_check_counterexample:
  "disk ''wrong_dims.json'' = Inr doc_wrong_dims \<and> \<not> doc_consistent doc_wrong_dims \<and>
   fst (load disk np_array_nested ''wrong_dims.json'' net_3_1) = Inr ()"
  by (simp add: disk_def doc_wrong_dims_def doc_consistent_def load_def array_list_def
      np_array_nested_def)

text \<open>
  Claim C6, amended. \<^verbatim>\<open>load\<close> does not compare the weight and bias entries with the
  declared shape. Whenever the file holds a dictionary with the keys \<^verbatim>\<open>"shape"\<close>,
  \<^verbatim>\<open>"weights"\<close> and \<^verbatim>\<open>"biases"\<close>, the last two with lists as values, and
  \<^verbatim>\<open>np.array\<close> succeeds on every entry of the two lists, \<^verbatim>\<open>load\<close> succeeds and
  stores the shape and the converted entries as they are, whatever their count and their
  dimensions.
\<close>

theorem load_accepts_any_dimensions:
  assumes "open_json file_location = Inr (PDict kvs)"
    and "map_of kvs ''shape'' = Some s"
    and "map_of kvs ''weights'' = Some (PList ws)"
    and "map_of kvs ''biases'' = Some (PList bs)"
    and "comprehension (map np_array ws) = Inr ws'"
    and "comprehension (map np_array bs) = Inr bs'"
  shows "load open_json np_array file_location self =
           (Inr (), self\<lparr>shape := Some s, weights := Some ws', biases := Some bs'\<rparr>)"
  using assms by (simp add: load_def array_list_def)

text \<open>The document with the weight of dimensions \<open>1 \<times> 3\<close>.\<close>

theorem load_accepts_any_dimensions_witness:
  "load disk np_array_nested ''wrong_dims.json'' net_3_1 =
     (Inr (), net_3_1\<lparr>shape := Some (PList [PNum 2, PNum 1]),
                      weights := Some [PList [PList [PNum 1, PNum 2, PNum 3]]],
                      biases := Some [PList [PList [PNum 0]]]\<rparr>)"
proof -
  have h1: "disk ''wrong_dims.json'' =
      Inr (PDict [(''shape'', PList [PNum 2, PNum 1]),
                  (''weights'', PList [PList [PList [PNum 1, PNum 2, PNum 3]]]),
                  (''biases'', PList [PList [PList [PNum 0]]])])"
    by (simp add: disk_def doc_wrong_dims_def)
  have h2: "map_of [(''shape'', PList [PNum 2, PNum 1]),
                  (''weights'', PList [PList [PList [PNum 1, PNum 2, PNum 3]]]),
                  (''biases'', PList [PList [PList [PNum 0]]])] ''shape'' = Some (PList [PNum 2, PNum 1])"
    by simp
  have h3: "map_of [(''shape'', PList [PNum 2, PNum 1]),
                  (''weights'', PList [PList [PList [PNum 1, PNum 2, PNum 3]]]),
                  (''biases'', PList [PList [PList [PNum 0]]])] ''weights'' =
            Some (PList [PList [PList [PNum 1, PNum 2, PNum 3]]])"
    by simp
  have h4: "map_of [(''shape'', PList [PNum 2, PNum 1]),
                  (''weights'', PList [PList [PList [PNum 1, PNum 2, PNum 3]]]),
                  (''biases'', PList [PList [PList [PNum 0]]])] ''biases'' =
            Some (PList [PList [PList [PNum 0]]])"
    by simp
  have h5: "comprehension (map np_array_nested [PList [PList [PNum 1, PNum 2, PNum 3]]]) =
            Inr [PList [PList [PNum 1, PNum 2, PNum 3]]]"
    by (simp add: np_array_nested_def)
  have h6: "comprehension (map np_array_nested [PList [PList [PNum 0]]]) =
            Inr [PList [PList [PNum 0]]]"
    by (simp add: np_array_nested_def)
  show ?thesis by (rule load_accepts_any_dimensions
        [where open_json = disk and file_location = "''wrong_dims.json''", OF h1 h2 h3 h4 h5 h6])
qed

section \<open>Transposed data\<close>

lemma np_T_shape [simp]: "shape_of (np_T a) = (ncols a, nrows a)"
  by (simp add: np_T_def shape_of_def)

lemma wf_np_T [simp]: "wf_ndarray (np_T a)"
  by (simp add: np_T_def)

lemma elem_np_T: "i < ncols a \<Longrightarrow> j < nrows a \<Longrightarrow> elem (np_T a) i j = elem a j i"
  by (simp add: np_T_def)

text \<open>
  Claim C10. Training data and labels are supplied one example per row, and the object
  stores their transposes: for data of dimensions \<open>(k, n0)\<close> and labels of dimensions
  \<open>(k, m)\<close> the attributes \<^verbatim>\<open>data\<close> and \<^verbatim>\<open>target\<close> hold well-formed arrays of
  dimensions \<open>(n0, k)\<close> and \<open>(m, k)\<close> whose entry \<open>(i, j)\<close> is entry \<open>(j, i)\<close> of the
  argument, so the examples are the columns. The same holds for the test data and labels
  when both are given; when one of them is \<^verbatim>\<open>None\<close> nothing is stored.
\<close>

theorem data_stored_transposed:
  assumes "shape_of train_data = (k, n0)" and "shape_of train_labels = (k, m)"
    and "shape_of tdata = (k', n0)" and "shape_of tlabels = (k', m)"
  shows "data (set_training_data train_data train_labels self) = Some (np_T train_data) \<and>
         target (set_training_data train_data train_labels self) = Some (np_T train_labels) \<and>
         test_data (set_test_data (Some tdata) (Some tlabels) self) = Some (np_T tdata) \<and>
         test_labels (set_test_data (Some tdata) (Some tlabels) self) = Some (np_T tlabels) \<and>
         set_test_data None tl_arg self = self \<and> set_test_data td_arg None self = self \<and>
         wf_ndarray (np_T train_data) \<and> shape_of (np_T train_data) = (n0, k) \<and>
         wf_ndarray (np_T train_labels) \<and> shape_of (np_T train_labels) = (m, k) \<and>
         wf_ndarray (np_T tdata) \<and> shape_of (np_T tdata) = (n0, k') \<and>
         wf_ndarray (np_T tlabels) \<and> shape_of (np_T tlabels) = (m, k') \<and>
         (\<forall>i<n0. \<forall>j<k. elem (np_T train_data) i j = elem train_data j i) \<and>
         (\<forall>i<m. \<forall>j<k. elem (np_T train_labels) i j = elem train_labels j i) \<and>
         (\<forall>i<n0. \<forall>j<k'. elem (np_T tdata) i j = elem tdata j i) \<and>
         (\<forall>i<m. \<forall>j<k'. elem (np_T tlabels) i j = elem tlabels j i)"
proof -
  have d: "ncols train_data = n0" "nrows train_data = k" "ncols train_labels = m" "nrows train_labels = k"
    "ncols tdata = n0" "nrows tdata = k'" "ncols tlabels = m" "nrows tlabels = k'"
    using assms by (simp_all add: shape_of_def)
  have "set_test_data td_arg None self = self"
    by (cases td_arg) (simp_all add: set_test_data_def)
  then show ?thesis
    by (simp add: set_training_data_def set_test_data_def d elem_np_T)
qed

text \<open>Two training examples with three features, one test example.\<close>

theorem data_stored_transposed_witness:
  "data (set_training_data train_2_3 labels_2_1 net_2_1) = Some (np_T train_2_3) \<and>
   target (set_training_data train_2_3 labels_2_1 net_2_1) = Some (np_T labels_2_1) \<and>
   test_data (set_test_data (Some test_1_3) (Some test_labels_1_1) net_2_1) = Some (np_T test_1_3) \<and>
   test_labels (set_test_data (Some test_1_3) (Some test_labels_1_1) net_2_1) =
     Some (np_T test_labels_1_1) \<and>
   set_test_data None (Some test_labels_1_1) net_2_1 = net_2_1 \<and>
   set_test_data (Some test_1_3) None net_2_1 = net_2_1 \<and>
   wf_ndarray (np_T train_2_3) \<and> shape_of (np_T train_2_3) = (3, 2) \<and>
   wf_ndarray (np_T labels_2_1) \<and> shape_of (np_T labels_2_1) = (1, 2) \<and>
   wf_ndarray (np_T test_1_3) \<and> shape_of (np_T test_1_3) = (3, 1) \<and>
   wf_ndarray (np_T test_labels_1_1) \<and> shape_of (np_T test_labels_1_1) = (1, 1) \<and>
   elem (np_T train_2_3) 2 1 = elem train_2_3 1 2 \<and>
   elem (np_T labels_2_1) 0 1 = elem labels_2_1 1 0 \<and>
   elem (np_T test_1_3) 2 0 = elem test_1_3 0 2 \<and>
   elem (np_T test_labels_1_1) 0 0 = elem test_labels_1_1 0 0"
proof -
  have h1: "shape_of train_2_3 = (2, 3)" by (simp add: train_2_3_def shape_of_def)
  have h2: "shape_of labels_2_1 = (2, 1)" by (simp add: labels_2_1_def shape_of_def)
  have h3: "shape_of test_1_3 = (1, 3)" by (simp add: test_1_3_def shape_of_def)
  have h4: "shape_of test_labels_1_1 = (1, 1)" by (simp add: test_labels_1_1_def shape_of_def)
  note t = data_stored_transposed [OF h1 h2 h3 h4, of net_2_1 "Some test_labels_1_1" "Some test_1_3"]
  from t have q1: "\<forall>i<3. \<forall>j<2. elem (np_T train_2_3) i j = elem train_2_3 j i"
    and q2: "\<forall>i<1. \<forall>j<2. elem (np_T labels_2_1) i j = elem labels_2_1 j i"
    and q3: "\<forall>i<3. \<forall>j<1. elem (np_T test_1_3) i j = elem test_1_3 j i"
    and q4: "\<forall>i<1. \<forall>j<1. elem (np_T test_labels_1_1) i j = elem test_labels_1_1 j i"
    by simp_all
  have e1: "elem (np_T train_2_3) 2 1 = elem train_2_3 1 2" using q1 by simp
  have e2: "elem (np_T labels_2_1) 0 1 = elem labels_2_1 1 0" using q2 by simp
  have e3: "elem (np_T test_1_3) 2 0 = elem test_1_3 0 2" using q3 by simp
  have e4: "elem (np_T test_labels_1_1) 0 0 = elem test_labels_1_1 0 0" using q4 by simp
  show ?thesis using t e1 e2 e3 e4 by simp
qed

lemma transpose_example: "np_T train_2_3 = NDArray 3 2 [[1, 4], [2, 5], [3, 6]]"
  by (simp add: np_T_def train_2_3_def mk_ndarray_def elem_def upt_rec)

section \<open>The update of the weights and of the biases\<close>

lemma bc_elem_eq: "i < nrows a \<Longrightarrow> j < ncols a \<Longrightarrow> bc_elem a i j = elem a i j"
  by (auto simp: bc_elem_def)

lemma sum_list_upt: "sum_list (map f [0..<n]) = (\<Sum>c<n. f c)"
  by (simp add: interv_sum_list_conv_sum_set_nat atLeast0LessThan)

lemma np_sub_same_shape:
  assumes "shape_of a = (r, c)" and "shape_of b = (r, c)"
  shows "\<exists>d. np_sub a b = Inr d \<and> wf_ndarray d \<and> shape_of d = (r, c) \<and>
             (\<forall>i<r. \<forall>j<c. elem d i j = elem a i j - elem b i j)"
proof -
  have s: "nrows a = r" "ncols a = c" "nrows b = r" "ncols b = c"
    using assms by (simp_all add: shape_of_def)
  have "np_sub a b = Inr (mk_ndarray r c (\<lambda>i j. bc_elem a i j - bc_elem b i j))"
    by (simp add: np_sub_def np_binop_def broadcast_dim_def s)
  then show ?thesis by (simp add: shape_of_def bc_elem_eq s)
qed

lemma weight_entry_ok:
  assumes "shape_of w = (n, m)" and "shape_of d = (n, k)" and "shape_of a = (m, k)"
    and "total' \<noteq> 0"
  shows "\<exists>w'. weight_entry eta total' w d a = Inr w' \<and> wf_ndarray w' \<and> shape_of w' = (n, m) \<and>
           (\<forall>i<n. \<forall>j<m. elem w' i j =
               elem w i j - eta / total' * (\<Sum>c<k. elem d i c * elem a j c))"
proof -
  have s: "nrows w = n" "ncols w = m" "nrows d = n" "ncols d = k" "nrows a = m" "ncols a = k"
    using assms(1,2,3) by (simp_all add: shape_of_def)
  define p where "p = mk_ndarray n m (\<lambda>i j. sum_list (map (\<lambda>c. elem d i c * elem (np_T a) c j) [0..<k]))"
  have dot: "np_dot d (np_T a) = Inr p"
    by (simp add: np_dot_def p_def s np_T_def)
  have pe: "elem p i j = (\<Sum>c<k. elem d i c * elem a j c)" if "i < n" "j < m" for i j
  proof -
    have "map (\<lambda>c. elem d i c * elem (np_T a) c j) [0..<k] = map (\<lambda>c. elem d i c * elem a j c) [0..<k]"
      using that by (intro map_cong refl) (simp add: elem_np_T s)
    then have "sum_list (map (\<lambda>c. elem d i c * elem (np_T a) c j) [0..<k]) =
        (\<Sum>c<k. elem d i c * elem a j c)"
      by (simp only: sum_list_upt)
    moreover have "elem p i j = sum_list (map (\<lambda>c. elem d i c * elem (np_T a) c j) [0..<k])"
      using that by (simp add: p_def)
    ultimately show ?thesis by simp
  qed
  have sc: "shape_of (np_scale (eta / total') p) = (n, m)"
    by (simp add: np_scale_def shape_of_def p_def)
  from np_sub_same_shape [OF assms(1) sc] obtain w' where
    w': "np_sub w (np_scale (eta / total') p) = Inr w'" "wf_ndarray w'" "shape_of w' = (n, m)"
      "\<forall>i<n. \<forall>j<m. elem w' i j = elem w i j - elem (np_scale (eta / total') p) i j"
    by blast
  have "weight_entry eta total' w d a = Inr w'"
    by (simp add: weight_entry_def py_div_def assms(4) dot w'(1))
  moreover have "elem w' i j = elem w i j - eta / total' * (\<Sum>c<k. elem d i c * elem a j c)"
    if "i < n" "j < m" for i j
  proof -
    have "elem (np_scale (eta / total') p) i j = eta / total' * elem p i j"
      using that by (simp add: np_scale_def p_def)
    then show ?thesis using w'(4) that pe by simp
  qed
  ultimately show ?thesis using w'(2,3) by blast
qed

lemma weights_comprehension:
  assumes "update_aligned ns k ws ds as" and "total' \<noteq> 0"
  shows "\<exists>ws'. comprehension (map (\<lambda>(w, d, a). weight_entry eta total' w d a) (zip ws (zip ds as))) = Inr ws' \<and>
           length ws' = length ws \<and>
           (\<forall>l<length ws. weight_updated (eta / total') k (ws ! l) (ds ! l) (as ! l) (ws' ! l))"
  using assms
proof (induction ns k ws ds as rule: update_aligned.induct)
  case (1 m n ns k w ws d ds a as)
  then have sh: "shape_of w = (n, m)" "shape_of d = (n, k)" "shape_of a = (m, k)"
    and rest: "update_aligned (n # ns) k ws ds as" by simp_all
  from weight_entry_ok [OF sh "1.prems"(2)] obtain w' where
    w': "weight_entry eta total' w d a = Inr w'" "wf_ndarray w'" "shape_of w' = (n, m)"
      "\<forall>i<n. \<forall>j<m. elem w' i j = elem w i j - eta / total' * (\<Sum>c<k. elem d i c * elem a j c)"
    by blast
  have hd: "weight_updated (eta / total') k w d a w'"
    using w'(2,3,4) sh(1) by (simp add: weight_updated_def shape_of_def)
  from "1.IH" [OF rest "1.prems"(2)] obtain ws' where
    ws': "comprehension (map (\<lambda>(w, d, a). weight_entry eta total' w d a) (zip ws (zip ds as))) = Inr ws'"
      "length ws' = length ws"
      "\<forall>l<length ws. weight_updated (eta / total') k (ws ! l) (ds ! l) (as ! l) (ws' ! l)"
    by blast
  have "comprehension (map (\<lambda>(w, d, a). weight_entry eta total' w d a) (zip (w # ws) (zip (d # ds) (a # as)))) = Inr (w' # ws')"
    by (simp add: w'(1) ws'(1))
  moreover have "weight_updated (eta / total') k ((w # ws) ! l) ((d # ds) ! l) ((a # as) ! l) ((w' # ws') ! l)"
    if "l < length (w # ws)" for l
    using that hd ws'(3) by (cases l) simp_all
  ultimately show ?case using ws'(2) by (intro exI [of _ "w' # ws'"]) simp
qed simp_all

lemma bias_entry_resape:
  "bias_entry_via ''resape'' learning_rate total' b d =
     (if total' = 0 then Inl ZeroDivisionError else Inl (AttributeError ''resape''))"
  by (simp add: bias_entry_via_def py_div_def getattr_1d_def)

lemma update_biases_raises:
  assumes "biases self = Some (b # bs)" and "deltas self = Some (d # ds)"
  shows "update_biases learning_rate total' self =
           (if total' = 0 then (Inl ZeroDivisionError, self)
            else (Inl (AttributeError ''resape''), self))"
  by (simp add: update_biases_def update_biases_via_def assms bias_entry_resape)

text \<open>
  The arrays of a network of shape \<open>ns\<close> are aligned for the update: the weights of a
  store that matches the shape, the activations of all layers (the batch first), as a
  forward pass that started from the list holding the batch leaves them, and one delta
  for each layer after the first.
\<close>

lemma layers_aligned:
  assumes "store_matches ns ws bs" and "layer_shapes ns k acts" and "layer_shapes (tl ns) k ds"
  shows "update_aligned ns k ws ds acts"
  using assms
proof (induction ns ws bs arbitrary: acts ds rule: store_matches.induct)
  case (1 n)
  then have "ds = []" by (cases ds) simp_all
  then show ?case by simp
next
  case (2 m n ns w ws b bs)
  from "2.prems"(2) obtain a as where acts: "acts = a # as" by (cases acts) simp_all
  from "2.prems"(3) obtain d ds' where ds: "ds = d # ds'" by (cases ds) simp_all
  have "update_aligned (n # ns) k ws ds' as"
    using "2.IH" [of as ds'] "2.prems" by (simp add: acts ds)
  then show ?case using "2.prems" by (simp add: acts ds)
qed simp_all

text \<open>
  With the continuation repaired (nothing between the backslash and the newline) the
  cell does what claim C4 says about the weights. The three lists are read position by
  position; the list of activations starts with the batch (layer 0), so position \<open>l\<close>
  holds the weight and the delta of layer \<open>l + 1\<close> and the activation of the layer
  before it. With arrays of the dimensions of a network of shape \<open>ns\<close> and a batch of
  \<open>k\<close> examples, and a batch size that is not zero, each weight \<open>w\<close> is replaced by
  \<open>w - (eta / total) \<sqdot> (d \<sqdot> a\<^sup>T)\<close>, entry by entry, and keeps its shape; no other
  attribute is assigned.
\<close>

lemma repaired_weight_update:
  assumes "update_aligned ns k ws ds as"
    and "weights self = Some ws" and "deltas self = Some ds" and "activations self = Some as"
    and "total' \<noteq> 0"
  shows "\<exists>ws'. update_weights_cell [] eta total' self = (Inr (), self\<lparr>weights := Some ws'\<rparr>) \<and>
           length ws' = length ws \<and>
           (\<forall>l<length ws.
              wf_ndarray (ws' ! l) \<and> shape_of (ws' ! l) = shape_of (ws ! l) \<and>
              (\<forall>i<nrows (ws ! l). \<forall>j<ncols (ws ! l).
                 elem (ws' ! l) i j =
                   elem (ws ! l) i j -
                   eta / total' * (\<Sum>t<k. elem (ds ! l) i t * elem (as ! l) j t)))"
proof -
  from weights_comprehension [OF assms(1,5), of eta] obtain ws' where
    ws': "comprehension (map (\<lambda>(w, d, a). weight_entry eta total' w d a) (zip ws (zip ds as))) = Inr ws'"
      "length ws' = length ws"
      "\<forall>l<length ws. weight_updated (eta / total') k (ws ! l) (ds ! l) (as ! l) (ws' ! l)"
    by blast
  have run: "update_weights_cell [] eta total' self = (Inr (), self\<lparr>weights := Some ws'\<rparr>)"
    by (simp add: update_weights_cell_def line_continuation_def assms(2,3,4) ws'(1))
  show ?thesis
    using run ws'(2,3) by (intro exI [of _ ws']) (simp add: weight_updated_def)
qed

lemma repaired_weight_update_example:
  "update_weights_cell [] 1 2 net_2_1 =
     (Inr (), net_2_1\<lparr>weights := Some [NDArray 1 2 [[1 / 2, 3 / 2]]]\<rparr>)"
  by (simp add: update_weights_cell_def line_continuation_def net_2_1_def weight_entry_def
      py_div_def np_dot_def np_T_def np_sub_def np_binop_def broadcast_dim_def np_scale_def
      mk_ndarray_def elem_def bc_elem_def empty_net_def upt_rec)

lemma update_weights_raises: "update_weights eta total' self = (Inl SyntaxError, self)"
  by (simp add: update_weights_def update_weights_cell_def line_continuation_def)

text \<open>
  Claim C4. The claim is what the cell spells and what the notebook describes: each
  weight is replaced by itself minus \<open>(eta / total)\<close> times the product of the delta
  with the transposed activation. In the notebook a space stands between the backslash
  that ends the first line of the cell and the newline, so the cell is rejected with
  \<^verbatim>\<open>SyntaxError\<close> before it runs and \<^verbatim>\<open>self.weights\<close> is not replaced. On the
  network of shape \<open>[2, 1]\<close>, with weight \<open>[[1, 2]]\<close>, delta \<open>[[1, 1]]\<close>, the identity
  batch as activation, \<open>eta = 1\<close> and batch size 2, the claim gives the new weight
  \<open>[[1 / 2, 3 / 2]]\<close>.
\<close>

theorem update_weights_syntax_error:
  "update_weights 1 2 net_2_1 = (Inl SyntaxError, net_2_1)"
  by (simp add: update_weights_def update_weights_cell_def line_continuation_def)

text \<open>
  Claim C1. The claim is what the notebook documents: the row sums are reshaped to the
  shape of the bias before the subtraction (\<^verbatim>\<open>.reshape(b.shape)\<close> "is fundamental").
  The cell calls \<^verbatim>\<open>.resape(b.shape)\<close>, a method that arrays do not have, so the
  update raises \<^verbatim>\<open>AttributeError\<close> and no bias is replaced. On the network of shape
  \<open>[2, 1]\<close>, with bias \<open>[[3]]\<close>, delta \<open>[[1, 1]]\<close>, learning rate 1 and batch size
  2, the claim gives the new bias \<open>[[3 - (1 / 2) \<sqdot> 2]] = [[2]]\<close>.
\<close>

theorem update_biases_attribute_error:
  "update_biases 1 2 net_2_1 = (Inl (AttributeError ''resape''), net_2_1)"
  by (simp add: update_biases_def update_biases_via_def net_2_1_def empty_net_def
      bias_entry_resape)

text \<open>
  With the documented method name the same comprehension does what claim C1 says: it
  subtracts the scaled row sums of the delta, keeps the shape of the bias, and raises
  \<^verbatim>\<open>ValueError\<close> when the row sums cannot be reshaped to the shape of the bias.
\<close>

lemma documented_bias_update_example:
  "update_biases_via ''reshape'' 1 2 net_2_1 =
     (Inr (), net_2_1\<lparr>biases := Some [NDArray 1 1 [[2]]]\<rparr>)"
  by (simp add: update_biases_via_def net_2_1_def bias_entry_via_def py_div_def getattr_1d_def
      np_sum_axis1_def reshape_def np_sub_def np_binop_def broadcast_dim_def np_scale_def
      mk_ndarray_def elem_def bc_elem_def shape_of_def empty_net_def upt_rec)

lemma documented_bias_entry:
  assumes "shape_of b = (n, 1)" and "shape_of d = (n, k)" and "total' \<noteq> 0"
  shows "\<exists>b'. bias_entry_via ''reshape'' learning_rate total' b d = Inr b' \<and>
           wf_ndarray b' \<and> shape_of b' = shape_of b \<and>
           (\<forall>i<n. elem b' i 0 = elem b i 0 - learning_rate / total' * (\<Sum>c<k. elem d i c))"
proof -
  have s: "nrows b = n" "ncols b = 1" "nrows d = n" "ncols d = k"
    using assms(1,2) by (simp_all add: shape_of_def)
  define v where "v = np_sum_axis1 d"
  have lv: "length v = n" by (simp add: v_def np_sum_axis1_def s)
  have ve: "v ! i = (\<Sum>c<k. elem d i c)" if "i < n" for i
    using that by (simp add: v_def np_sum_axis1_def s sum_list_upt)
  define r where "r = mk_ndarray n 1 (\<lambda>i j. v ! (i * 1 + j))"
  have re: "reshape v (shape_of b) = Inr r"
    by (simp add: reshape_def assms(1) lv r_def)
  have sc: "shape_of (np_scale (learning_rate / total') r) = (n, 1)"
    by (simp add: np_scale_def shape_of_def r_def)
  from np_sub_same_shape [OF assms(1) sc] obtain b' where
    b': "np_sub b (np_scale (learning_rate / total') r) = Inr b'" "wf_ndarray b'"
      "shape_of b' = (n, 1)"
      "\<forall>i<n. \<forall>j<1. elem b' i j = elem b i j - elem (np_scale (learning_rate / total') r) i j"
    by blast
  have "bias_entry_via ''reshape'' learning_rate total' b d = Inr b'"
    using re b'(1) by (simp add: bias_entry_via_def py_div_def assms(3) getattr_1d_def v_def)
  moreover have "elem b' i 0 = elem b i 0 - learning_rate / total' * (\<Sum>c<k. elem d i c)"
    if "i < n" for i
  proof -
    have "elem (np_scale (learning_rate / total') r) i 0 = learning_rate / total' * v ! i"
      using that by (simp add: np_scale_def r_def)
    then show ?thesis using b'(4) that ve by simp
  qed
  ultimately show ?thesis using b'(2,3) assms(1) by auto
qed

lemma documented_bias_entry_mismatch:
  assumes "nrows b * ncols b \<noteq> nrows d" and "total' \<noteq> 0"
  shows "bias_entry_via ''reshape'' learning_rate total' b d = Inl ValueError"
  using assms
  by (simp add: bias_entry_via_def py_div_def getattr_1d_def reshape_def shape_of_def
      np_sum_axis1_def)

section \<open>The range of the sigmoid\<close>

lemma DBL_MAX_less: "DBL_MAX < 2 ^ 1024"
proof -
  have "DBL_MAX < (2 ^ 53) * 2 ^ 971" unfolding DBL_MAX_def by (intro mult_strict_right_mono) simp_all
  also have "\<dots> = (2::real) ^ 1024" by (simp flip: power_add)
  finally show ?thesis .
qed

lemma exp_1024: "(2::real) ^ 1024 \<le> exp 1024"
proof -
  have "(2::real) \<le> exp 1" using exp_ge_add_one_self [of "1::real"] by simp
  then have "(2::real) ^ 1024 \<le> exp 1 ^ 1024" by (intro power_mono) simp_all
  also have "\<dots> = exp (of_nat 1024 * 1)" by (simp only: exp_of_nat_mult)
  finally show ?thesis by simp
qed

lemma np_exp_overflow: "np_exp 1024 = Infinity"
  using DBL_MAX_less exp_1024 by (simp add: np_exp_def)

text \<open>
  Claim C9, as stated: the sigmoid does not overflow for any input, entries of large
  negative magnitude included. For the entry \<open>-1024\<close> the cell evaluates
  \<^verbatim>\<open>np.exp(1024)\<close>, which is beyond the largest \<^verbatim>\<open>float64\<close>: the intermediate
  value is \<^verbatim>\<open>inf\<close>.
\<close>

theorem sigmoid_overflow_counterexample: "sigmoid_overflows (NDArray 1 1 [[- 1024]])"
  by (simp add: sigmoid_overflows_def entry_overflows_def np_exp_overflow fp_add_def)

lemma DBL_MAX_ge: "2 \<le> DBL_MAX"
proof -
  have "(2::real) ^ 1 \<le> 2 ^ 971" by (intro power_increasing) simp_all
  moreover have "(1::real) \<le> 2 ^ 53 - 1" by simp
  ultimately have "1 * (2::real) ^ 1 \<le> (2 ^ 53 - 1) * 2 ^ 971"
    by (intro mult_mono) simp_all
  then show ?thesis by (simp add: DBL_MAX_def)
qed

lemma entry_overflows_iff: "entry_overflows v \<longleftrightarrow> DBL_MAX < 1 + exp (- v)"
proof -
  have "DBL_MAX < exp (- v) \<Longrightarrow> DBL_MAX < 1 + exp (- v)" by simp
  then show ?thesis by (auto simp: entry_overflows_def fp_add_def np_exp_def)
qed

lemma sigmoid_entry_value:
  "sigmoid_entry v = (if entry_overflows v then 0 else 1 / (1 + exp (- v)))"
proof -
  have "DBL_MAX < exp (- v) \<Longrightarrow> DBL_MAX < 1 + exp (- v)" by simp
  then show ?thesis
    by (auto simp: sigmoid_entry_def entry_overflows_def fp_add_def fp_div_def np_exp_def)
qed

lemma no_overflow_nonneg: "0 \<le> v \<Longrightarrow> \<not> entry_overflows v"
proof -
  assume "0 \<le> v"
  then have "exp (- v) \<le> 1" by simp
  then have "1 + exp (- v) \<le> DBL_MAX" using DBL_MAX_ge by linarith
  then show ?thesis by (simp add: entry_overflows_iff)
qed

text \<open>
  Claim C9, amended. The sigmoid is the single expression \<^verbatim>\<open>1 / (1 + np.exp(-x))\<close>
  applied entry by entry, with no branch on the sign of the input: the result is a
  well-formed array of the shape of the input; an entry \<open>v\<close> overflows exactly when
  \<open>1 + e\<^sup>-\<^sup>v\<close> is beyond the largest \<^verbatim>\<open>float64\<close>, and the result is then 0; every other
  entry gives \<open>1 / (1 + e\<^sup>-\<^sup>v)\<close>. No entry \<open>v \<ge> 0\<close> overflows.
\<close>

theorem sigmoid_elementwise:
  "wf_ndarray (sigmoid x) \<and> shape_of (sigmoid x) = shape_of x \<and>
   (\<forall>i<nrows x. \<forall>j<ncols x.
      elem (sigmoid x) i j =
        (if DBL_MAX < 1 + exp (- elem x i j) then 0 else 1 / (1 + exp (- elem x i j)))) \<and>
   (\<forall>v. entry_overflows v \<longleftrightarrow> DBL_MAX < 1 + exp (- v)) \<and>
   (\<forall>v\<ge>0. \<not> entry_overflows v)"
  using entry_overflows_iff no_overflow_nonneg
  by (simp add: sigmoid_def np_map_def shape_of_def sigmoid_entry_value)

text \<open>The entries 0 and \<open>-1024\<close>: the first gives one half, the second overflows and gives 0.\<close>

theorem sigmoid_elementwise_witness:
  "elem (sigmoid (NDArray 1 2 [[0, - 1024]])) 0 0 = 1 / 2 \<and>
   elem (sigmoid (NDArray 1 2 [[0, - 1024]])) 0 1 = 0 \<and>
   shape_of (sigmoid (NDArray 1 2 [[0, - 1024]])) = (1, 2) \<and>
   \<not> entry_overflows 0 \<and> entry_overflows (- 1024)"
proof -
  define x where "x = NDArray 1 2 [[0, - 1024]]"
  have a: "DBL_MAX < 1 + exp (1024::real)" using DBL_MAX_less exp_1024 by linarith
  have b: "\<not> DBL_MAX < 1 + exp (0::real)" using DBL_MAX_ge by simp
  have d: "nrows x = 1" "ncols x = 2" "elem x 0 0 = 0" "elem x 0 (Suc 0) = - 1024"
    by (simp_all add: x_def elem_def)
  have all: "\<forall>i<nrows x. \<forall>j<ncols x.
      elem (sigmoid x) i j =
        (if DBL_MAX < 1 + exp (- elem x i j) then 0 else 1 / (1 + exp (- elem x i j)))"
    and sh: "shape_of (sigmoid x) = shape_of x"
    and ov: "\<forall>v. entry_overflows v \<longleftrightarrow> DBL_MAX < 1 + exp (- v)"
    using sigmoid_elementwise [of x] by blast+
  have "elem (sigmoid x) 0 0 =
      (if DBL_MAX < 1 + exp (- elem x 0 0) then 0 else 1 / (1 + exp (- elem x 0 0)))"
    using all d(1,2) by simp
  then have r0: "elem (sigmoid x) 0 0 = 1 / 2" using b by (simp add: d(3))
  have "elem (sigmoid x) 0 1 =
      (if DBL_MAX < 1 + exp (- elem x 0 1) then 0 else 1 / (1 + exp (- elem x 0 1)))"
    using all d(1,2) by simp
  then have r1: "elem (sigmoid x) 0 1 = 0" using a by (simp add: d(4))
  have r2: "shape_of (sigmoid x) = (1, 2)" using sh d(1,2) by (simp add: shape_of_def)
  have r3: "\<not> entry_overflows 0" using ov b by simp
  have r4: "entry_overflows (- 1024)" using ov a by simp
  show ?thesis using r0 r1 r2 r3 r4 unfolding x_def by blast
qed

section \<open>The deltas of back propagation\<close>

lemma elementwise_ok:
  assumes "shape_of a = (r, c)" and "shape_of b = (r, c)"
  shows "\<exists>d. elementwise f a b = Inr d \<and> wf_ndarray d \<and> shape_of d = (r, c) \<and>
           (\<forall>i<r. \<forall>j<c. elem d i j = f (elem a i j) (elem b i j))"
proof -
  have s: "nrows a = r" "ncols a = c" using assms(1) by (simp_all add: shape_of_def)
  have "elementwise f a b = Inr (mk_ndarray r c (\<lambda>i j. f (elem a i j) (elem b i j)))"
    by (simp add: elementwise_def assms s)
  then show ?thesis by (simp add: shape_of_def)
qed

lemma delta_last_ok:
  assumes "shape_of a = (n, k)" and "shape_of y = (n, k)" and "shape_of out = (n, k)"
  shows "\<exists>d. delta_last derivative a y out = Inr d \<and> is_delta_last derivative a y out d"
proof -
  have s: "nrows out = n" "ncols out = k" using assms(3) by (simp_all add: shape_of_def)
  from elementwise_ok [OF assms(1,2), of "(-)"] obtain diff where
    diff: "elementwise (-) a y = Inr diff" "shape_of diff = (n, k)"
      "\<forall>i<n. \<forall>j<k. elem diff i j = elem a i j - elem y i j" by blast
  have m: "shape_of (np_map derivative out) = (n, k)" by (simp add: assms(3))
  from elementwise_ok [OF diff(2) m, of "(*)"] obtain d where
    d: "elementwise (*) diff (np_map derivative out) = Inr d" "wf_ndarray d" "shape_of d = (n, k)"
      "\<forall>i<n. \<forall>j<k. elem d i j = elem diff i j * elem (np_map derivative out) i j" by blast
  have "elem d i j = (elem a i j - elem y i j) * derivative (elem out i j)"
    if "i < n" "j < k" for i j
    using that d(4) diff(3) by (simp add: np_map_def s)
  then have "is_delta_last derivative a y out d"
    using d(2,3) by (simp add: is_delta_last_def assms(3) s)
  moreover have "delta_last derivative a y out = Inr d"
    by (simp add: delta_last_def diff(1) d(1))
  ultimately show ?thesis by blast
qed

lemma delta_step_ok:
  assumes "shape_of w_next = (n', n)" and "shape_of d_next = (n', k)" and "shape_of out = (n, k)"
    and "mask_fits n k dmask"
  shows "\<exists>d. delta_step derivative w_next d_next out dmask = Inr d \<and>
           is_delta_step derivative w_next d_next out dmask d"
proof -
  have s: "nrows out = n" "ncols out = k" "nrows w_next = n'" "ncols w_next = n"
    "nrows d_next = n'" "ncols d_next = k"
    using assms(1,2,3) by (simp_all add: shape_of_def)
  define p where
    "p = mk_ndarray n k (\<lambda>i j. sum_list (map (\<lambda>t. elem (np_T w_next) i t * elem d_next t j) [0..<n']))"
  have dot: "np_dot (np_T w_next) d_next = Inr p"
    by (simp add: np_dot_def p_def s np_T_def)
  have pe: "elem p i j = (\<Sum>t<n'. elem w_next t i * elem d_next t j)" if "i < n" "j < k" for i j
  proof -
    have "map (\<lambda>t. elem (np_T w_next) i t * elem d_next t j) [0..<n'] =
          map (\<lambda>t. elem w_next t i * elem d_next t j) [0..<n']"
      using that by (intro map_cong refl) (simp add: elem_np_T s)
    then have "sum_list (map (\<lambda>t. elem (np_T w_next) i t * elem d_next t j) [0..<n']) =
        (\<Sum>t<n'. elem w_next t i * elem d_next t j)"
      by (simp only: sum_list_upt)
    moreover have "elem p i j = sum_list (map (\<lambda>t. elem (np_T w_next) i t * elem d_next t j) [0..<n'])"
      using that by (simp add: p_def)
    ultimately show ?thesis by simp
  qed
  have ps: "shape_of p = (n, k)" by (simp add: p_def shape_of_def)
  have m: "shape_of (np_map derivative out) = (n, k)" by (simp add: assms(3))
  from elementwise_ok [OF ps m, of "(*)"] obtain u where
    u: "elementwise (*) p (np_map derivative out) = Inr u" "wf_ndarray u" "shape_of u = (n, k)"
      "\<forall>i<n. \<forall>j<k. elem u i j = elem p i j * elem (np_map derivative out) i j" by blast
  have ue: "elem u i j = (\<Sum>t<n'. elem w_next t i * elem d_next t j) * derivative (elem out i j)"
    if "i < n" "j < k" for i j
    using that u(4) pe by (simp add: np_map_def s)
  show ?thesis
  proof (cases dmask)
    case None
    have "is_delta_step derivative w_next d_next out None u"
      using u(2,3) ue by (simp add: is_delta_step_def assms(3) s)
    moreover have "delta_step derivative w_next d_next out None = Inr u"
      by (simp add: delta_step_def dot u(1) apply_mask_def)
    ultimately show ?thesis using None by blast
  next
    case (Some mk)
    then have mk: "shape_of mk = (n, k)" using assms(4) by (simp add: mask_fits_def)
    from elementwise_ok [OF u(3) mk, of "(*)"] obtain d where
      d: "elementwise (*) u mk = Inr d" "wf_ndarray d" "shape_of d = (n, k)"
        "\<forall>i<n. \<forall>j<k. elem d i j = elem u i j * elem mk i j" by blast
    have "elem d i j =
        (\<Sum>t<n'. elem w_next t i * elem d_next t j) * derivative (elem out i j) * elem mk i j"
      if "i < n" "j < k" for i j
      using that d(4) ue by simp
    then have "is_delta_step derivative w_next d_next out (Some mk) d"
      using d(2,3) by (simp add: is_delta_step_def assms(3) s)
    moreover have "delta_step derivative w_next d_next out (Some mk) = Inr d"
      by (simp add: delta_step_def dot u(1) apply_mask_def d(1))
    ultimately show ?thesis using Some by blast
  qed
qed

lemma backward_from_ok:
  assumes "backward_aligned ns k ws outs masks" and "2 \<le> length ns"
    and "shape_of a = (last ns, k)" and "shape_of y = (last ns, k)"
  shows "\<exists>ds. backward_from derivative ws outs masks a y = Inr ds \<and>
           layer_shapes (tl ns) k ds \<and>
           is_delta_last derivative a y (last outs) (last ds) \<and>
           (\<forall>l. Suc l < length ds \<longrightarrow>
              is_delta_step derivative (ws ! Suc l) (ds ! Suc l) (outs ! l) (masks ! l) (ds ! l))"
  using assms
proof (induction ns k ws outs masks rule: backward_aligned.induct)
  case (1 m n ns k w ws out outs dmask masks)
  then have out: "wf_ndarray out" "shape_of out = (n, k)" and mf: "mask_fits n k dmask"
    and rest: "backward_aligned (n # ns) k ws outs masks" by simp_all
  show ?case
  proof (cases ns)
    case Nil
    then have e: "ws = []" "outs = []" "masks = []"
      using rest by (cases ws; cases outs; cases masks; simp)+
    have a: "shape_of a = (n, k)" "shape_of y = (n, k)" using "1.prems"(3,4) Nil by simp_all
    from delta_last_ok [OF a out(2), of derivative] obtain d where
      d: "delta_last derivative a y out = Inr d" "is_delta_last derivative a y out d" by blast
    have "wf_ndarray d" "shape_of d = (n, k)" using d(2) out(2) by (simp_all add: is_delta_last_def)
    then show ?thesis using d by (intro exI [of _ "[d]"]) (simp add: e Nil)
  next
    case (Cons n' ns')
    then obtain w_next ws' out' outs' mask' masks' where
      e: "ws = w_next # ws'" "outs = out' # outs'" "masks = mask' # masks'"
      using rest by (cases ws; cases outs; cases masks) simp_all
    have wn: "shape_of w_next = (n', n)" using rest by (simp add: e Cons)
    have "2 \<le> length (n # ns)" "shape_of a = (last (n # ns), k)" "shape_of y = (last (n # ns), k)"
      using "1.prems"(3,4) Cons by simp_all
    from "1.IH" [OF rest this] obtain ds where
      ds: "backward_from derivative ws outs masks a y = Inr ds" "layer_shapes (tl (n # ns)) k ds"
        "is_delta_last derivative a y (last outs) (last ds)"
        "\<forall>l. Suc l < length ds \<longrightarrow>
           is_delta_step derivative (ws ! Suc l) (ds ! Suc l) (outs ! l) (masks ! l) (ds ! l)"
      by blast
    from ds(2) obtain d_next ds' where dn: "ds = d_next # ds'" by (cases ds) (simp_all add: Cons)
    have dns: "shape_of d_next = (n', k)" using ds(2) by (simp add: dn Cons)
    from delta_step_ok [OF wn dns out(2) mf, of derivative] obtain d where
      d: "delta_step derivative w_next d_next out dmask = Inr d"
        "is_delta_step derivative w_next d_next out dmask d" by blast
    have dw: "wf_ndarray d" "shape_of d = (n, k)" using d(2) out(2) by (simp_all add: is_delta_step_def)
    have run: "backward_from derivative (w # ws) (out # outs) (dmask # masks) a y = Inr (d # ds)"
      using ds(1) d(1) by (simp add: e dn)
    have sh: "layer_shapes (tl (m # n # ns)) k (d # ds)" using dw ds(2) by simp
    have la: "is_delta_last derivative a y (last (out # outs)) (last (d # ds))"
      using ds(3) by (simp add: e dn)
    have st: "is_delta_step derivative ((w # ws) ! Suc l) ((d # ds) ! Suc l) ((out # outs) ! l)
                ((dmask # masks) ! l) ((d # ds) ! l)"
      if "Suc l < length (d # ds)" for l
    proof (cases l)
      case 0
      then show ?thesis using d(2) by (simp add: e dn)
    next
      case (Suc l')
      then show ?thesis using ds(4) that by simp
    qed
    show ?thesis using run sh la st by (intro exI [of _ "d # ds"]) simp
  qed
qed simp_all


lemma layer_shapes_nth:
  "layer_shapes ns k xs \<Longrightarrow>
   length xs = length ns \<and> (\<forall>l<length ns. wf_ndarray (xs ! l) \<and> shape_of (xs ! l) = (ns ! l, k))"
proof (induction ns k xs rule: layer_shapes.induct)
  case (2 n ns k a as)
  then have h: "wf_ndarray a" "shape_of a = (n, k)" "length as = length ns"
    "\<forall>l<length ns. wf_ndarray (as ! l) \<and> shape_of (as ! l) = (ns ! l, k)" by simp_all
  have "wf_ndarray ((a # as) ! l) \<and> shape_of ((a # as) ! l) = ((n # ns) ! l, k)"
    if "l < length (n # ns)" for l
    using that h by (cases l) simp_all
  then show ?case using h(3) by simp
qed simp_all

lemma backward_example:
  "backward square_derivative weights_2_2_1 outputs_2_2_1 activations_2_2_1 masks_2_2_1 target_1_2 =
     Inr [NDArray 2 2 [[0, - 96], [108, - 192]], NDArray 1 2 [[- 18, 24]]]"
  by (simp add: backward_def weights_2_2_1_def outputs_2_2_1_def activations_2_2_1_def
      masks_2_2_1_def target_1_2_def delta_last_def delta_step_def apply_mask_def elementwise_def
      np_dot_def np_T_def np_map_def square_derivative_def mk_ndarray_def elem_def shape_of_def
      upt_rec)

lemma unmasked_step_example:
  "delta_step square_derivative (weights_2_2_1 ! 1) (NDArray 1 2 [[- 18, 24]])
     (outputs_2_2_1 ! 0) None =
   Inr (NDArray 2 2 [[- 36, - 96], [108, - 192]])"
  by (simp add: weights_2_2_1_def outputs_2_2_1_def delta_step_def apply_mask_def elementwise_def
      np_dot_def np_T_def np_map_def square_derivative_def mk_ndarray_def elem_def shape_of_def
      upt_rec)

text \<open>
  Claim C3, as stated: for every \<open>l\<close> from \<open>L-2\<close> down to 1, \<open>delta[l]\<close> is
  \<open>(weight[l+1]\<^sup>T \<sqdot> delta[l+1]) \<odot> derivative(outputs[l])\<close>. In the network of shape
  \<open>[2, 2, 1]\<close> whose hidden layer was masked in the forward pass, the product for the
  hidden layer is \<open>[[-36, -96], [108, -192]]\<close>, and the delta that \<open>backward\<close>
  returns for it is that product times the mask, \<open>[[0, -96], [108, -192]]\<close>.
\<close>

theorem masked_delta_counterexample:
  "backward square_derivative weights_2_2_1 outputs_2_2_1 activations_2_2_1 masks_2_2_1 target_1_2 =
     Inr [NDArray 2 2 [[0, - 96], [108, - 192]], NDArray 1 2 [[- 18, 24]]] \<and>
   delta_step square_derivative (weights_2_2_1 ! 1) (NDArray 1 2 [[- 18, 24]])
     (outputs_2_2_1 ! 0) None =
     Inr (NDArray 2 2 [[- 36, - 96], [108, - 192]]) \<and>
   NDArray 2 2 [[0, - 96], [108, - 192]] \<noteq> NDArray 2 2 [[- 36, - 96], [108, - 192]]"
proof (intro conjI)
  show "backward square_derivative weights_2_2_1 outputs_2_2_1 activations_2_2_1 masks_2_2_1
          target_1_2 =
        Inr [NDArray 2 2 [[0, - 96], [108, - 192]], NDArray 1 2 [[- 18, 24]]]"
    by (rule backward_example)
  show "delta_step square_derivative (weights_2_2_1 ! 1) (NDArray 1 2 [[- 18, 24]])
          (outputs_2_2_1 ! 0) None =
        Inr (NDArray 2 2 [[- 36, - 96], [108, - 192]])"
    by (rule unmasked_step_example)
  show "NDArray 2 2 [[0, - 96], [108, - 192]] \<noteq> NDArray 2 2 [[- 36, - 96], [108, - 192]]"
    by simp
qed

text \<open>
  Claim C3, amended, for \<open>backward\<close> as the specification describes it. For a network
  of shape \<open>ns\<close> of length \<open>L \<ge> 2\<close>, weights and outputs of its dimensions for a batch
  of \<open>k\<close> examples, masks of the dimensions of their layers, activations of dimensions
  \<open>(n(l), k)\<close> and a target of the dimensions of the last activation, \<open>backward\<close>
  returns \<open>L - 1\<close> deltas. The last one is
  \<open>(activations[L-1] - target) \<odot> derivative(outputs[L-1])\<close>; each earlier one is
  \<open>(weight[l+1]\<^sup>T \<sqdot> delta[l+1]) \<odot> derivative(outputs[l])\<close> when no dropout mask was
  applied to the layer, and that product times the mask when one was, the masked delta
  being the one used for the layer before; the derivative is applied to the output (the
  pre-activation) of the layer; every delta is well formed and has the dimensions
  \<open>(n(l), k)\<close> of the activation of its layer. Position \<open>l\<close> of the lists of weights,
  outputs, masks and deltas is layer \<open>l + 1\<close>; the list of activations starts at layer 0.
\<close>

theorem backward_deltas:
  assumes "2 \<le> length ns" and "backward_aligned ns k ws outs masks"
    and "layer_shapes ns k acts" and "shape_of y = (last ns, k)"
  shows "\<exists>ds. backward derivative ws outs acts masks y = Inr ds \<and> Suc (length ds) = length ns \<and>
           is_delta_last derivative (last acts) y (last outs) (last ds) \<and>
           (\<forall>l. Suc l < length ds \<longrightarrow>
              is_delta_step derivative (ws ! Suc l) (ds ! Suc l) (outs ! l) (masks ! l) (ds ! l)) \<and>
           (\<forall>l<length ds.
              wf_ndarray (ds ! l) \<and> shape_of (ds ! l) = (ns ! Suc l, k) \<and>
              shape_of (ds ! l) = shape_of (acts ! Suc l))"
proof -
  from assms(1) obtain m n ns' where ns: "ns = m # n # ns'"
    by (cases ns; cases "tl ns") auto
  note an = layer_shapes_nth [OF assms(3)]
  then have "acts \<noteq> []" using assms(1) by auto
  then obtain a0 rest where acts: "acts = a0 # rest" by (cases acts) simp_all
  have "last acts = acts ! (length ns - 1)" using an \<open>acts \<noteq> []\<close> by (simp add: last_conv_nth)
  moreover have "last ns = ns ! (length ns - 1)" using assms(1) by (intro last_conv_nth) auto
  ultimately have a: "shape_of (last acts) = (last ns, k)" using an assms(1) by simp
  from backward_from_ok [OF assms(2,1) a assms(4), of derivative] obtain ds where
    ds: "backward_from derivative ws outs masks (last acts) y = Inr ds" "layer_shapes (tl ns) k ds"
      "is_delta_last derivative (last acts) y (last outs) (last ds)"
      "\<forall>l. Suc l < length ds \<longrightarrow>
         is_delta_step derivative (ws ! Suc l) (ds ! Suc l) (outs ! l) (masks ! l) (ds ! l)"
    by blast
  note dn = layer_shapes_nth [OF ds(2)]
  have len: "Suc (length ds) = length ns" using dn by (simp add: ns)
  have "wf_ndarray (ds ! l) \<and> shape_of (ds ! l) = (ns ! Suc l, k) \<and>
        shape_of (ds ! l) = shape_of (acts ! Suc l)" if "l < length ds" for l
  proof -
    have "l < length (tl ns)" using that dn by simp
    then have "wf_ndarray (ds ! l)" "shape_of (ds ! l) = (tl ns ! l, k)" using dn by simp_all
    moreover have "tl ns ! l = ns ! Suc l" by (simp add: ns)
    moreover have "shape_of (acts ! Suc l) = (ns ! Suc l, k)" using an that len by simp
    ultimately show ?thesis by simp
  qed
  moreover have "backward derivative ws outs acts masks y = Inr ds"
    using ds(1) by (simp add: backward_def acts)
  ultimately show ?thesis using len ds(3,4) by blast
qed

text \<open>
  The network of shape \<open>[2, 2, 1]\<close> with the mask on its hidden layer. The last delta
  is \<open>(81 - 80) \<sqdot> 2 \<sqdot> (-9) = -18\<close> at the first example, with the derivative taken
  at the output \<open>-9\<close> and not at the activation 81; the hidden delta at row 1 of the
  first example is \<open>(-1) \<sqdot> (-18) \<sqdot> (2 \<sqdot> 3) \<sqdot> 1 = 108\<close>, and at row 0 the mask
  makes it 0.
\<close>

theorem backward_deltas_witness:
  "\<exists>ds. backward square_derivative weights_2_2_1 outputs_2_2_1 activations_2_2_1 masks_2_2_1
          target_1_2 = Inr ds \<and>
     length ds = 2 \<and>
     wf_ndarray (ds ! 0) \<and> shape_of (ds ! 0) = (2, 2) \<and>
     wf_ndarray (ds ! 1) \<and> shape_of (ds ! 1) = (1, 2) \<and>
     shape_of (ds ! 0) = shape_of (activations_2_2_1 ! 1) \<and>
     shape_of (ds ! 1) = shape_of (activations_2_2_1 ! 2) \<and>
     elem (last ds) 0 0 =
       (elem (last activations_2_2_1) 0 0 - elem target_1_2 0 0) *
       square_derivative (elem (last outputs_2_2_1) 0 0) \<and>
     elem (last ds) 0 0 = - 18 \<and>
     elem (ds ! 0) 1 0 =
       (\<Sum>t<nrows (weights_2_2_1 ! 1). elem (weights_2_2_1 ! 1) t 1 * elem (ds ! 1) t 0) *
       square_derivative (elem (outputs_2_2_1 ! 0) 1 0) * elem (NDArray 2 2 [[0, 1], [1, 1]]) 1 0 \<and>
     elem (ds ! 0) 0 0 =
       (\<Sum>t<nrows (weights_2_2_1 ! 1). elem (weights_2_2_1 ! 1) t 0 * elem (ds ! 1) t 0) *
       square_derivative (elem (outputs_2_2_1 ! 0) 0 0) * elem (NDArray 2 2 [[0, 1], [1, 1]]) 0 0 \<and>
     elem (ds ! 0) 0 0 = 0"
proof -
  define mk where "mk = NDArray 2 2 [[0, 1], [1, 1]]"
  have h1: "2 \<le> length [2::nat, 2, 1]" by simp
  have h2: "backward_aligned [2, 2, 1] 2 weights_2_2_1 outputs_2_2_1 masks_2_2_1"
    by (simp add: weights_2_2_1_def outputs_2_2_1_def masks_2_2_1_def mask_fits_def
        wf_ndarray_def shape_of_def)
  have h3: "layer_shapes [2, 2, 1] 2 activations_2_2_1"
    by (simp add: activations_2_2_1_def wf_ndarray_def shape_of_def)
  have h4: "shape_of target_1_2 = (last [2, 2, 1], 2)"
    by (simp add: target_1_2_def shape_of_def)
  from backward_deltas [OF h1 h2 h3 h4, of square_derivative] obtain ds where
    all: "backward square_derivative weights_2_2_1 outputs_2_2_1 activations_2_2_1 masks_2_2_1
            target_1_2 = Inr ds \<and>
      Suc (length ds) = length [2::nat, 2, 1] \<and>
      is_delta_last square_derivative (last activations_2_2_1) target_1_2
        (last outputs_2_2_1) (last ds) \<and>
      (\<forall>l. Suc l < length ds \<longrightarrow>
         is_delta_step square_derivative (weights_2_2_1 ! Suc l) (ds ! Suc l)
           (outputs_2_2_1 ! l) (masks_2_2_1 ! l) (ds ! l)) \<and>
      (\<forall>l<length ds.
         wf_ndarray (ds ! l) \<and> shape_of (ds ! l) = ([2, 2, 1] ! Suc l, 2) \<and>
         shape_of (ds ! l) = shape_of (activations_2_2_1 ! Suc l))" ..
  note run = all [THEN conjunct1]
  note len = all [THEN conjunct2, THEN conjunct1]
  note la = all [THEN conjunct2, THEN conjunct2, THEN conjunct1]
  note st = all [THEN conjunct2, THEN conjunct2, THEN conjunct2, THEN conjunct1]
  note sh = all [THEN conjunct2, THEN conjunct2, THEN conjunct2, THEN conjunct2]
  have l2: "length ds = 2" using len by simp
  have i0: "0 < length ds" and i1: "1 < length ds" using l2 by simp_all
  have s0: "wf_ndarray (ds ! 0)" "shape_of (ds ! 0) = (2, 2)"
    "shape_of (ds ! 0) = shape_of (activations_2_2_1 ! 1)"
    using sh [rule_format, OF i0] by auto
  have s1: "wf_ndarray (ds ! 1)" "shape_of (ds ! 1) = (1, 2)"
    "shape_of (ds ! 1) = shape_of (activations_2_2_1 ! 2)"
    using sh [rule_format, OF i1] by (auto simp: numeral_2_eq_2)
  have lo: "nrows (last outputs_2_2_1) = 1" "ncols (last outputs_2_2_1) = 2"
    by (simp_all add: outputs_2_2_1_def)
  have e1: "elem (last ds) 0 0 =
       (elem (last activations_2_2_1) 0 0 - elem target_1_2 0 0) *
       square_derivative (elem (last outputs_2_2_1) 0 0)"
    using la lo by (simp add: is_delta_last_def)
  have v1: "(elem (last activations_2_2_1) 0 0 - elem target_1_2 0 0) *
       square_derivative (elem (last outputs_2_2_1) 0 0) = - 18"
    by (simp add: activations_2_2_1_def target_1_2_def outputs_2_2_1_def elem_def
        square_derivative_def)
  have e1': "elem (last ds) 0 0 = - 18" using e1 v1 by simp
  have o0: "nrows (outputs_2_2_1 ! 0) = 2" "ncols (outputs_2_2_1 ! 0) = 2"
    by (simp_all add: outputs_2_2_1_def)
  have m0: "masks_2_2_1 ! 0 = Some mk" by (simp add: masks_2_2_1_def mk_def)
  have step: "is_delta_step square_derivative (weights_2_2_1 ! 1) (ds ! 1) (outputs_2_2_1 ! 0)
                (Some mk) (ds ! 0)"
    using st [rule_format, of 0] l2 m0 by simp
  have stepq: "\<forall>i<2. \<forall>j<2. elem (ds ! 0) i j =
       (\<Sum>t<nrows (weights_2_2_1 ! 1). elem (weights_2_2_1 ! 1) t i * elem (ds ! 1) t j) *
       square_derivative (elem (outputs_2_2_1 ! 0) i j) * elem mk i j"
    using step o0 by (simp add: is_delta_step_def)
  have e2: "elem (ds ! 0) 1 0 =
       (\<Sum>t<nrows (weights_2_2_1 ! 1). elem (weights_2_2_1 ! 1) t 1 * elem (ds ! 1) t 0) *
       square_derivative (elem (outputs_2_2_1 ! 0) 1 0) * elem mk 1 0"
    using stepq by simp
  have e3: "elem (ds ! 0) 0 0 =
       (\<Sum>t<nrows (weights_2_2_1 ! 1). elem (weights_2_2_1 ! 1) t 0 * elem (ds ! 1) t 0) *
       square_derivative (elem (outputs_2_2_1 ! 0) 0 0) * elem mk 0 0"
    using stepq by simp
  have "elem mk 0 0 = 0" by (simp add: mk_def elem_def)
  then have e3': "elem (ds ! 0) 0 0 = 0" using e3 by simp
  show ?thesis
    apply (rule exI [of _ ds])
    apply (intro conjI)
                apply (rule run)
               apply (rule l2)
              apply (rule s0(1))
             apply (rule s0(2))
            apply (rule s1(1))
           apply (rule s1(2))
          apply (rule s0(3))
         apply (rule s1(3))
        apply (rule e1)
       apply (rule e1')
      apply (rule e2 [unfolded mk_def])
     apply (rule e3 [unfolded mk_def])
    apply (rule e3')
    done
qed

end
